theory Spec2Isabelle
  imports Complex_Main "HOL-Library.Multiset"
begin

section \<open>The TOPSIS engine of the material-selection wizard\<close>

text \<open>
  This theory embeds \<^verbatim>\<open>runTopsisCalculation\<close>, the TOPSIS engine that the page imports
  from \<^verbatim>\<open>lib/topsis\<close>, together with the declarations of \<^verbatim>\<open>lib/materials\<close> it reads.

  Numbers. A JavaScript \<^verbatim>\<open>number\<close> that the caller supplies (a material attribute, a
  cost, a weight) is a finite value and is modelled as a \<^typ>\<open>real\<close>. Every number that
  the engine computes is a value of the type \<open>jsnum\<close> below: a finite number or one of the
  special values \<^verbatim>\<open>Infinity\<close>, \<^verbatim>\<open>-Infinity\<close> and \<^verbatim>\<open>NaN\<close>, with the arithmetic of the
  special values written out (a division by zero gives \<^verbatim>\<open>NaN\<close> or an infinity,
  \<^verbatim>\<open>Math.max()\<close> of no arguments is \<^verbatim>\<open>-Infinity\<close>, and so on).

  On finite numbers the arithmetic is exact: the rounding of a result inside the range of
  the doubles, underflow and the sign of zero are not represented. Overflow is represented
  where the operands are not bounded. The raw cells of the decision matrix come from the
  caller, and the page accepts any non-negative cost, so the squares of stage 2 and their
  sum can leave the range of the doubles; there the results are put through \<open>js_range\<close>.
  Every later operand is a normalized cell, of magnitude at most 1, its product with a
  weight, which the page keeps between 0 and 1, or a difference, a square or a sum of a
  few such products; these operations stay in range.
\<close>

subsection \<open>Data model (lib/materials)\<close>

record Material =
  name :: string
  type :: string
  pn :: "real list"
  temp :: real
  corrosion :: real
  vie :: real
  pose :: real
  acoustique :: real
  feu :: real
  environnement :: real
  surpression :: real

text \<open>The string union \<^verbatim>\<open>CriterionKey\<close>: the eight numeric attributes and \<^verbatim>\<open>'cout'\<close>.\<close>

datatype CriterionKey =
  Key_temp | Key_corrosion | Key_vie | Key_pose | Key_acoustique | Key_feu
  | Key_environnement | Key_surpression | Key_cout

record Criterion =
  key :: CriterionKey
  label :: string
  isBenefit :: bool

definition allCriteria :: "Criterion list" where
  "allCriteria =
    [\<lparr>key = Key_temp, label = ''Temperature maximale (C)'', isBenefit = True\<rparr>,
     \<lparr>key = Key_corrosion, label = ''Resistance a la corrosion'', isBenefit = True\<rparr>,
     \<lparr>key = Key_vie, label = ''Duree de vie (annees)'', isBenefit = True\<rparr>,
     \<lparr>key = Key_pose, label = ''Facilite de pose'', isBenefit = True\<rparr>,
     \<lparr>key = Key_acoustique, label = ''Performance acoustique'', isBenefit = True\<rparr>,
     \<lparr>key = Key_feu, label = ''Resistance au feu'', isBenefit = True\<rparr>,
     \<lparr>key = Key_environnement, label = ''Impact environnemental'', isBenefit = True\<rparr>,
     \<lparr>key = Key_surpression, label = ''Resistance a la surpression'', isBenefit = True\<rparr>,
     \<lparr>key = Key_cout, label = ''Cout (MAD/m)'', isBenefit = False\<rparr>]"

subsection \<open>Numbers with the special values\<close>

datatype jsnum = Num real | PosInf | NegInf | NaN

fun isNaN :: "jsnum \<Rightarrow> bool" where
  "isNaN NaN = True"
| "isNaN _ = False"

fun js_add :: "jsnum \<Rightarrow> jsnum \<Rightarrow> jsnum" where
  "js_add NaN _ = NaN"
| "js_add _ NaN = NaN"
| "js_add (Num a) (Num b) = Num (a + b)"
| "js_add PosInf NegInf = NaN"
| "js_add NegInf PosInf = NaN"
| "js_add PosInf _ = PosInf"
| "js_add NegInf _ = NegInf"
| "js_add (Num a) PosInf = PosInf"
| "js_add (Num a) NegInf = NegInf"

fun js_sub :: "jsnum \<Rightarrow> jsnum \<Rightarrow> jsnum" where
  "js_sub NaN _ = NaN"
| "js_sub _ NaN = NaN"
| "js_sub (Num a) (Num b) = Num (a - b)"
| "js_sub PosInf PosInf = NaN"
| "js_sub NegInf NegInf = NaN"
| "js_sub PosInf _ = PosInf"
| "js_sub NegInf _ = NegInf"
| "js_sub (Num a) PosInf = NegInf"
| "js_sub (Num a) NegInf = PosInf"

text \<open>Multiplication: zero times an infinity is \<^verbatim>\<open>NaN\<close>.\<close>

fun js_mul :: "jsnum \<Rightarrow> jsnum \<Rightarrow> jsnum" where
  "js_mul NaN _ = NaN"
| "js_mul _ NaN = NaN"
| "js_mul (Num a) (Num b) = Num (a * b)"
| "js_mul (Num a) PosInf = (if a = 0 then NaN else if 0 < a then PosInf else NegInf)"
| "js_mul (Num a) NegInf = (if a = 0 then NaN else if 0 < a then NegInf else PosInf)"
| "js_mul PosInf (Num b) = (if b = 0 then NaN else if 0 < b then PosInf else NegInf)"
| "js_mul NegInf (Num b) = (if b = 0 then NaN else if 0 < b then NegInf else PosInf)"
| "js_mul PosInf PosInf = PosInf"
| "js_mul NegInf NegInf = PosInf"
| "js_mul PosInf NegInf = NegInf"
| "js_mul NegInf PosInf = NegInf"

text \<open>\<^verbatim>\<open>x ** 2\<close> and \<^verbatim>\<open>Math.sqrt(x)\<close>.\<close>

fun js_sq :: "jsnum \<Rightarrow> jsnum" where
  "js_sq (Num a) = Num (a ^ 2)"
| "js_sq PosInf = PosInf"
| "js_sq NegInf = PosInf"
| "js_sq NaN = NaN"

fun js_sqrt :: "jsnum \<Rightarrow> jsnum" where
  "js_sqrt (Num a) = (if a < 0 then NaN else Num (sqrt a))"
| "js_sqrt PosInf = PosInf"
| "js_sqrt NegInf = NaN"
| "js_sqrt NaN = NaN"

text \<open>
  Division. The sign of a zero is not represented: a zero divisor is taken to be \<open>+0\<close>.
  A finite number divided by an infinity is 0.
\<close>

fun js_div :: "jsnum \<Rightarrow> jsnum \<Rightarrow> jsnum" where
  "js_div NaN _ = NaN"
| "js_div _ NaN = NaN"
| "js_div (Num a) (Num b) =
     (if b \<noteq> 0 then Num (a / b)
      else if a = 0 then NaN else if 0 < a then PosInf else NegInf)"
| "js_div (Num a) _ = Num 0"
| "js_div PosInf (Num b) = (if 0 \<le> b then PosInf else NegInf)"
| "js_div NegInf (Num b) = (if 0 \<le> b then NegInf else PosInf)"
| "js_div _ _ = NaN"

text \<open>
  The range of the doubles. The largest finite double is \<^verbatim>\<open>2^1024 - 2^971\<close>, and an
  exact result of magnitude \<^verbatim>\<open>2^1024 - 2^970\<close> or more is rounded to an infinity.
  \<open>js_range\<close> is applied to the result of an operation that can overflow.
\<close>

definition overflow_threshold :: real where
  "overflow_threshold = 2 ^ 1024 - 2 ^ 970"

fun js_range :: "jsnum \<Rightarrow> jsnum" where
  "js_range (Num a) =
     (if overflow_threshold \<le> a then PosInf
      else if a \<le> - overflow_threshold then NegInf else Num a)"
| "js_range PosInf = PosInf"
| "js_range NegInf = NegInf"
| "js_range NaN = NaN"

text \<open>\<^verbatim>\<open>x === 0\<close> and \<^verbatim>\<open>x > 0\<close> on numbers.\<close>

fun js_is_zero :: "jsnum \<Rightarrow> bool" where
  "js_is_zero (Num a) = (a = 0)"
| "js_is_zero _ = False"

fun js_gt_zero :: "jsnum \<Rightarrow> bool" where
  "js_gt_zero (Num a) = (0 < a)"
| "js_gt_zero PosInf = True"
| "js_gt_zero _ = False"

text \<open>
  \<^verbatim>\<open>Math.max(...xs)\<close> and \<^verbatim>\<open>Math.min(...xs)\<close>: \<^verbatim>\<open>NaN\<close> as soon as one argument is
  \<^verbatim>\<open>NaN\<close>, and \<^verbatim>\<open>-Infinity\<close> and \<^verbatim>\<open>Infinity\<close> for no argument at all.
\<close>

fun js_max :: "jsnum \<Rightarrow> jsnum \<Rightarrow> jsnum" where
  "js_max NaN _ = NaN"
| "js_max _ NaN = NaN"
| "js_max PosInf _ = PosInf"
| "js_max _ PosInf = PosInf"
| "js_max NegInf b = b"
| "js_max a NegInf = a"
| "js_max (Num a) (Num b) = Num (max a b)"

fun js_min :: "jsnum \<Rightarrow> jsnum \<Rightarrow> jsnum" where
  "js_min NaN _ = NaN"
| "js_min _ NaN = NaN"
| "js_min NegInf _ = NegInf"
| "js_min _ NegInf = NegInf"
| "js_min PosInf b = b"
| "js_min a PosInf = a"
| "js_min (Num a) (Num b) = Num (min a b)"

definition math_max :: "jsnum list \<Rightarrow> jsnum" where
  "math_max xs = fold js_max xs NegInf"

definition math_min :: "jsnum list \<Rightarrow> jsnum" where
  "math_min xs = fold js_min xs PosInf"

text \<open>
  \<^verbatim>\<open>v || 0\<close> for a looked-up number \<open>v\<close>: a missing entry (\<^verbatim>\<open>undefined\<close>) and the
  number zero are both falsy.
\<close>

definition or_zero :: "real option \<Rightarrow> real" where
  "or_zero v = (case v of None \<Rightarrow> 0 | Some x \<Rightarrow> if x = 0 then 0 else x)"

subsection \<open>Input and result records (lib/topsis)\<close>

text \<open>
  The records \<^verbatim>\<open>costs\<close> and \<^verbatim>\<open>weights\<close> are maps on their own entries, as their types
  \<^verbatim>\<open>Record<string, number>\<close> and \<^verbatim>\<open>Record<CriterionKey, number>\<close> describe them;
  properties inherited from the object prototype are not represented.
\<close>

record TopsisInput =
  selectedMaterialsData :: "Material list"
  selectedCriteriaKeys :: "CriterionKey list"
  allCriteriaDefinition :: "Criterion list"
  costs :: "string \<rightharpoonup> real"
  weights :: "CriterionKey \<rightharpoonup> real"

record TopsisResult =
  name :: string
  score :: jsnum
  originalData :: Material
  calculatedValues :: "CriterionKey \<rightharpoonup> real"

record TopsisFullResults = TopsisResult +
  initialMatrix :: "real list list"
  normalizedMatrix :: "jsnum list list"
  weightedMatrix :: "jsnum list list"
  idealSolution :: "jsnum list"
  antiIdealSolution :: "jsnum list"
  distanceToIdeal :: "jsnum list"
  distanceToAntiIdeal :: "jsnum list"

text \<open>
  \<^verbatim>\<open>initialMatrix[0].length\<close> raises a \<^verbatim>\<open>TypeError\<close> when the matrix has no row. It
  is the only read of a property of a possibly missing value in the engine.
\<close>

datatype js_error = TypeError

subsection \<open>Stage 1: the decision matrix\<close>

text \<open>
  The cell of a material for a criterion key: the cost map for \<^verbatim>\<open>'cout'\<close>, the
  material's own attribute otherwise. The cells are the caller's numbers.
\<close>

fun cell_value :: "(string \<rightharpoonup> real) \<Rightarrow> Material \<Rightarrow> CriterionKey \<Rightarrow> real" where
  "cell_value cs material Key_cout = or_zero (cs (Material.name material))"
| "cell_value cs material Key_temp = temp material"
| "cell_value cs material Key_corrosion = corrosion material"
| "cell_value cs material Key_vie = vie material"
| "cell_value cs material Key_pose = pose material"
| "cell_value cs material Key_acoustique = acoustique material"
| "cell_value cs material Key_feu = feu material"
| "cell_value cs material Key_environnement = environnement material"
| "cell_value cs material Key_surpression = surpression material"

definition build_initialMatrix ::
  "Material list \<Rightarrow> CriterionKey list \<Rightarrow> (string \<rightharpoonup> real) \<Rightarrow> real list list" where
  "build_initialMatrix mats keys cs =
     map (\<lambda>material. map (\<lambda>criterionKey. cell_value cs material criterionKey) keys) mats"

subsection \<open>Stage 2: column-wise normalisation\<close>

text \<open>
  \<^verbatim>\<open>Array(r).fill(0).map(() => Array(c).fill(0))\<close> and the assignment
  \<^verbatim>\<open>m[i][j] = v\<close>. Every assignment of the engine is inside the matrix, where the
  JavaScript assignment and the list update agree.
\<close>

definition zero_matrix :: "nat \<Rightarrow> nat \<Rightarrow> jsnum list list" where
  "zero_matrix r c = replicate r (replicate c (Num 0))"

definition set_cell :: "'a list list \<Rightarrow> nat \<Rightarrow> nat \<Rightarrow> 'a \<Rightarrow> 'a list list" where
  "set_cell m i j v = m[i := (m ! i)[j := v]]"

text \<open>
  \<^verbatim>\<open>sumOfSquares += initialMatrix[i][j] ** 2\<close>: the square of a cell and the running
  sum can overflow to \<^verbatim>\<open>Infinity\<close> (a cell of \<^verbatim>\<open>1e200\<close> is enough).
\<close>

definition sumOfSquares :: "real list list \<Rightarrow> nat \<Rightarrow> nat \<Rightarrow> jsnum" where
  "sumOfSquares im numRows j =
     fold (\<lambda>i s. js_range (js_add s (js_range (js_sq (Num (im ! i ! j))))))
          [0..<numRows] (Num 0)"

text \<open>
  The division is guarded by \<^verbatim>\<open>norm === 0\<close>. When the sum of squares has overflowed
  the norm is \<^verbatim>\<open>Infinity\<close>, the guard does not apply and every cell of the column is
  divided by \<^verbatim>\<open>Infinity\<close>.
\<close>

definition normalize_column ::
  "real list list \<Rightarrow> nat \<Rightarrow> nat \<Rightarrow> jsnum list list \<Rightarrow> jsnum list list" where
  "normalize_column im numRows j nm =
     (let norm = js_sqrt (sumOfSquares im numRows j)
      in if js_is_zero norm
         then fold (\<lambda>i nm. set_cell nm i j (Num 0)) [0..<numRows] nm
         else fold (\<lambda>i nm. set_cell nm i j (js_div (Num (im ! i ! j)) norm)) [0..<numRows] nm)"

definition build_normalizedMatrix :: "real list list \<Rightarrow> nat \<Rightarrow> nat \<Rightarrow> jsnum list list" where
  "build_normalizedMatrix im numRows numCols =
     fold (normalize_column im numRows) [0..<numCols] (zero_matrix numRows numCols)"

subsection \<open>Stage 3: weighting\<close>

definition weight_row ::
  "jsnum list list \<Rightarrow> CriterionKey list \<Rightarrow> (CriterionKey \<rightharpoonup> real) \<Rightarrow> nat \<Rightarrow> nat
   \<Rightarrow> jsnum list list \<Rightarrow> jsnum list list" where
  "weight_row nm keys ws numCols i wm =
     fold (\<lambda>j wm. let criterionKey = keys ! j
                   in set_cell wm i j (js_mul (nm ! i ! j) (Num (or_zero (ws criterionKey)))))
          [0..<numCols] wm"

definition build_weightedMatrix ::
  "jsnum list list \<Rightarrow> CriterionKey list \<Rightarrow> (CriterionKey \<rightharpoonup> real) \<Rightarrow> nat \<Rightarrow> nat
   \<Rightarrow> jsnum list list" where
  "build_weightedMatrix nm keys ws numRows numCols =
     fold (weight_row nm keys ws numCols) [0..<numRows] (zero_matrix numRows numCols)"

subsection \<open>Stage 4: ideal and anti-ideal solutions\<close>

text \<open>
  \<^verbatim>\<open>new Map(allCriteriaDefinition.map(c => [c.key, c]))\<close>: the entries are set in
  order, so a later entry with the same key replaces an earlier one.
\<close>

definition build_criteriaMap :: "Criterion list \<Rightarrow> (CriterionKey \<rightharpoonup> Criterion)" where
  "build_criteriaMap defs = fold (\<lambda>c m. m(key c \<mapsto> c)) defs Map.empty"

text \<open>\<^verbatim>\<open>criterion?.isBenefit\<close> as a condition: a missing criterion is falsy.\<close>

definition benefit_flag :: "Criterion option \<Rightarrow> bool" where
  "benefit_flag criterion = (case criterion of None \<Rightarrow> False | Some c \<Rightarrow> isBenefit c)"

definition solution_step ::
  "CriterionKey list \<Rightarrow> (CriterionKey \<rightharpoonup> Criterion) \<Rightarrow> jsnum list list \<Rightarrow> nat
   \<Rightarrow> jsnum list \<times> jsnum list \<Rightarrow> jsnum list \<times> jsnum list" where
  "solution_step keys criteriaMap wm j sols =
     (let criterionKey = keys ! j;
          criterion = criteriaMap criterionKey;
          columnValues = map (\<lambda>row. row ! j) wm
      in if benefit_flag criterion
         then ((fst sols)[j := math_max columnValues], (snd sols)[j := math_min columnValues])
         else ((fst sols)[j := math_min columnValues], (snd sols)[j := math_max columnValues]))"

definition build_solutions ::
  "CriterionKey list \<Rightarrow> Criterion list \<Rightarrow> jsnum list list \<Rightarrow> nat
   \<Rightarrow> jsnum list \<times> jsnum list" where
  "build_solutions keys defs wm numCols =
     fold (solution_step keys (build_criteriaMap defs) wm) [0..<numCols]
          (replicate numCols (Num 0), replicate numCols (Num 0))"

subsection \<open>Stage 5: separation measures\<close>

definition separation_sums ::
  "jsnum list list \<Rightarrow> jsnum list \<Rightarrow> jsnum list \<Rightarrow> nat \<Rightarrow> nat \<Rightarrow> jsnum \<times> jsnum" where
  "separation_sums wm ideal anti numCols i =
     fold (\<lambda>j sumSq.
             (js_add (fst sumSq) (js_sq (js_sub (wm ! i ! j) (ideal ! j))),
              js_add (snd sumSq) (js_sq (js_sub (wm ! i ! j) (anti ! j)))))
          [0..<numCols] (Num 0, Num 0)"

definition build_distances ::
  "jsnum list list \<Rightarrow> jsnum list \<Rightarrow> jsnum list \<Rightarrow> nat \<Rightarrow> nat \<Rightarrow> jsnum list \<times> jsnum list" where
  "build_distances wm ideal anti numRows numCols =
     fold (\<lambda>i dists.
             let sumSq = separation_sums wm ideal anti numCols i
             in ((fst dists)[i := js_sqrt (fst sumSq)], (snd dists)[i := js_sqrt (snd sumSq)]))
          [0..<numRows] (replicate numRows (Num 0), replicate numRows (Num 0))"

subsection \<open>Stage 6: relative closeness\<close>

definition closeness :: "jsnum \<Rightarrow> jsnum \<Rightarrow> jsnum" where
  "closeness dIdeal dAnti =
     (let denominator = js_add dIdeal dAnti
      in if js_is_zero denominator then NaN else js_div dAnti denominator)"

definition build_scores :: "jsnum list \<Rightarrow> jsnum list \<Rightarrow> nat \<Rightarrow> jsnum list" where
  "build_scores dIdeal dAnti numRows =
     fold (\<lambda>i scores. scores[i := closeness (dIdeal ! i) (dAnti ! i)])
          [0..<numRows] (replicate numRows (Num 0))"

subsection \<open>Stage 7: result records and ranking\<close>

text \<open>\<^verbatim>\<open>selectedCriteriaKeys.forEach((key, j_idx) => { calculatedValues[key] = ... })\<close>.\<close>

definition build_calculatedValues ::
  "CriterionKey list \<Rightarrow> real list list \<Rightarrow> nat \<Rightarrow> (CriterionKey \<rightharpoonup> real)" where
  "build_calculatedValues keys im index =
     fold (\<lambda>j_idx cv. cv(keys ! j_idx \<mapsto> im ! index ! j_idx)) [0..<length keys] Map.empty"

text \<open>
  \<^verbatim>\<open>Array.prototype.sort\<close> with a comparison function. The comparison result \<open>v\<close> puts
  \<open>b\<close> before \<open>a\<close> exactly when \<open>v > 0\<close> (a \<^verbatim>\<open>NaN\<close> result counts as \<open>+0\<close>), and
  the sort is stable, so for a consistent comparison function the outcome is the stable
  ordering whatever the engine's algorithm; it is computed here by insertion.
\<close>

fun insert_by :: "('a \<Rightarrow> 'a \<Rightarrow> jsnum) \<Rightarrow> 'a \<Rightarrow> 'a list \<Rightarrow> 'a list" where
  "insert_by cmp a [] = [a]"
| "insert_by cmp a (b # bs) =
     (if js_gt_zero (cmp a b) then b # insert_by cmp a bs else a # b # bs)"

definition array_sort :: "('a \<Rightarrow> 'a \<Rightarrow> jsnum) \<Rightarrow> 'a list \<Rightarrow> 'a list" where
  "array_sort cmp xs = foldr (insert_by cmp) xs []"

definition compare_results :: "TopsisFullResults \<Rightarrow> TopsisFullResults \<Rightarrow> jsnum" where
  "compare_results a b =
     (let scoreA = (if isNaN (score a) then NegInf else score a);
          scoreB = (if isNaN (score b) then NegInf else score b)
      in js_sub scoreB scoreA)"

subsection \<open>The engine\<close>

text \<open>
  The result records are built by \<^verbatim>\<open>selectedMaterialsData.map((material, index) => ...)\<close>;
  every record carries the same computation trail.
\<close>

definition runTopsisCalculation :: "TopsisInput \<Rightarrow> js_error + TopsisFullResults list" where
  "runTopsisCalculation inp =
     (if length (selectedMaterialsData inp) = 0 \<or> length (selectedCriteriaKeys inp) = 0
      then Inr []
      else
        let im = build_initialMatrix (selectedMaterialsData inp) (selectedCriteriaKeys inp)
                   (costs inp);
            numRows = length im
        in case im of
             [] \<Rightarrow> Inl TypeError
           | row0 # _ \<Rightarrow>
               let numCols = length row0;
                   nm = build_normalizedMatrix im numRows numCols;
                   wm = build_weightedMatrix nm (selectedCriteriaKeys inp) (weights inp)
                          numRows numCols;
                   sols = build_solutions (selectedCriteriaKeys inp)
                            (allCriteriaDefinition inp) wm numCols;
                   dists = build_distances wm (fst sols) (snd sols) numRows numCols;
                   scores = build_scores (fst dists) (snd dists) numRows;
                   results =
                     map (\<lambda>index.
                            let material = selectedMaterialsData inp ! index
                            in \<lparr>name = Material.name material,
                                score = scores ! index,
                                originalData = material,
                                calculatedValues =
                                  build_calculatedValues (selectedCriteriaKeys inp) im index,
                                initialMatrix = im,
                                normalizedMatrix = nm,
                                weightedMatrix = wm,
                                idealSolution = fst sols,
                                antiIdealSolution = snd sols,
                                distanceToIdeal = fst dists,
                                distanceToAntiIdeal = snd dists\<rparr>)
                         [0..<length (selectedMaterialsData inp)]
               in Inr (array_sort compare_results results))"


section \<open>Derived notions\<close>

text \<open>
  The notions below are used to state and prove the properties of the engine. None of
  them is part of the engine.
\<close>

subsection \<open>Matrices and the closed form of each stage\<close>

definition shape :: "'a list list \<Rightarrow> nat \<Rightarrow> nat \<Rightarrow> bool" where
  "shape m r c \<longleftrightarrow> length m = r \<and> (\<forall>i<r. length (m ! i) = c)"

definition matrix_of :: "nat \<Rightarrow> nat \<Rightarrow> (nat \<Rightarrow> nat \<Rightarrow> 'a) \<Rightarrow> 'a list list" where
  "matrix_of r c f = map (\<lambda>i. map (\<lambda>j. f i j) [0..<c]) [0..<r]"

text \<open>
  The exact sum of the squares of a column and its Euclidean norm. The normalized cell:
  when the sum of squares has overflowed, the cell is divided by \<^verbatim>\<open>Infinity\<close> and is 0;
  when the norm is 0 the cell is 0; otherwise it is the raw cell divided by the norm.
\<close>

definition col_sumsq :: "real list list \<Rightarrow> nat \<Rightarrow> nat \<Rightarrow> real" where
  "col_sumsq m r j = (\<Sum>i<r. (m ! i ! j) ^ 2)"

definition col_norm :: "real list list \<Rightarrow> nat \<Rightarrow> nat \<Rightarrow> real" where
  "col_norm m r j = sqrt (col_sumsq m r j)"

definition normalized_cell :: "real list list \<Rightarrow> nat \<Rightarrow> nat \<Rightarrow> nat \<Rightarrow> real" where
  "normalized_cell im r i j =
     (if overflow_threshold \<le> col_sumsq im r j then 0
      else if col_norm im r j = 0 then 0 else im ! i ! j / col_norm im r j)"

definition weighted_cell ::
  "real list list \<Rightarrow> CriterionKey list \<Rightarrow> (CriterionKey \<rightharpoonup> real) \<Rightarrow> nat \<Rightarrow> nat \<Rightarrow> real" where
  "weighted_cell nm keys ws i j = nm ! i ! j * or_zero (ws (keys ! j))"

definition column_values :: "'a list list \<Rightarrow> nat \<Rightarrow> 'a list" where
  "column_values wm j = map (\<lambda>row. row ! j) wm"

definition ideal_entry ::
  "CriterionKey list \<Rightarrow> Criterion list \<Rightarrow> jsnum list list \<Rightarrow> nat \<Rightarrow> jsnum" where
  "ideal_entry keys defs wm j =
     (if benefit_flag (build_criteriaMap defs (keys ! j))
      then math_max (column_values wm j) else math_min (column_values wm j))"

definition anti_entry ::
  "CriterionKey list \<Rightarrow> Criterion list \<Rightarrow> jsnum list list \<Rightarrow> nat \<Rightarrow> jsnum" where
  "anti_entry keys defs wm j =
     (if benefit_flag (build_criteriaMap defs (keys ! j))
      then math_min (column_values wm j) else math_max (column_values wm j))"

definition ideal_value ::
  "CriterionKey list \<Rightarrow> Criterion list \<Rightarrow> real list list \<Rightarrow> nat \<Rightarrow> real" where
  "ideal_value keys defs wm j =
     (if benefit_flag (build_criteriaMap defs (keys ! j))
      then Max (set (column_values wm j)) else Min (set (column_values wm j)))"

definition anti_value ::
  "CriterionKey list \<Rightarrow> Criterion list \<Rightarrow> real list list \<Rightarrow> nat \<Rightarrow> real" where
  "anti_value keys defs wm j =
     (if benefit_flag (build_criteriaMap defs (keys ! j))
      then Min (set (column_values wm j)) else Max (set (column_values wm j)))"

definition row_distance :: "real list list \<Rightarrow> (nat \<Rightarrow> real) \<Rightarrow> nat \<Rightarrow> nat \<Rightarrow> real" where
  "row_distance wm S c i = sqrt (\<Sum>j<c. (wm ! i ! j - S j) ^ 2)"

definition score_value :: "real \<Rightarrow> real \<Rightarrow> jsnum" where
  "score_value dp dm = (if dp + dm = 0 then NaN else Num (dm / (dp + dm)))"

subsection \<open>The computation trail as a function of the input\<close>

text \<open>
  For a non-empty input the engine returns \<open>sorted_run\<close>: the result records
  \<open>trail_result\<close> of the materials, sorted.
\<close>

definition trail_im :: "TopsisInput \<Rightarrow> real list list" where
  "trail_im inp =
     build_initialMatrix (selectedMaterialsData inp) (selectedCriteriaKeys inp) (costs inp)"

definition trail_nm :: "TopsisInput \<Rightarrow> jsnum list list" where
  "trail_nm inp =
     build_normalizedMatrix (trail_im inp) (length (selectedMaterialsData inp))
       (length (selectedCriteriaKeys inp))"

definition trail_wm :: "TopsisInput \<Rightarrow> jsnum list list" where
  "trail_wm inp =
     build_weightedMatrix (trail_nm inp) (selectedCriteriaKeys inp) (weights inp)
       (length (selectedMaterialsData inp)) (length (selectedCriteriaKeys inp))"

definition trail_sols :: "TopsisInput \<Rightarrow> jsnum list \<times> jsnum list" where
  "trail_sols inp =
     build_solutions (selectedCriteriaKeys inp) (allCriteriaDefinition inp) (trail_wm inp)
       (length (selectedCriteriaKeys inp))"

definition trail_dists :: "TopsisInput \<Rightarrow> jsnum list \<times> jsnum list" where
  "trail_dists inp =
     build_distances (trail_wm inp) (fst (trail_sols inp)) (snd (trail_sols inp))
       (length (selectedMaterialsData inp)) (length (selectedCriteriaKeys inp))"

definition trail_scores :: "TopsisInput \<Rightarrow> jsnum list" where
  "trail_scores inp =
     build_scores (fst (trail_dists inp)) (snd (trail_dists inp))
       (length (selectedMaterialsData inp))"

definition trail_result :: "TopsisInput \<Rightarrow> nat \<Rightarrow> TopsisFullResults" where
  "trail_result inp index =
     \<lparr>name = Material.name (selectedMaterialsData inp ! index),
      score = trail_scores inp ! index,
      originalData = selectedMaterialsData inp ! index,
      calculatedValues = build_calculatedValues (selectedCriteriaKeys inp) (trail_im inp) index,
      initialMatrix = trail_im inp,
      normalizedMatrix = trail_nm inp,
      weightedMatrix = trail_wm inp,
      idealSolution = fst (trail_sols inp),
      antiIdealSolution = snd (trail_sols inp),
      distanceToIdeal = fst (trail_dists inp),
      distanceToAntiIdeal = snd (trail_dists inp)\<rparr>"

definition sorted_run :: "TopsisInput \<Rightarrow> TopsisFullResults list" where
  "sorted_run inp =
     array_sort compare_results
       (map (trail_result inp) [0..<length (selectedMaterialsData inp)])"

text \<open>
  The normalized and the weighted matrix of a run hold finite numbers only; \<open>value_nm\<close>
  and \<open>value_wm\<close> are the matrices of these numbers.
\<close>

definition value_nm :: "TopsisInput \<Rightarrow> real list list" where
  "value_nm inp =
     matrix_of (length (selectedMaterialsData inp)) (length (selectedCriteriaKeys inp))
       (normalized_cell (trail_im inp) (length (selectedMaterialsData inp)))"

definition value_wm :: "TopsisInput \<Rightarrow> real list list" where
  "value_wm inp =
     matrix_of (length (selectedMaterialsData inp)) (length (selectedCriteriaKeys inp))
       (weighted_cell (value_nm inp) (selectedCriteriaKeys inp) (weights inp))"

definition trail_ideal :: "TopsisInput \<Rightarrow> nat \<Rightarrow> real" where
  "trail_ideal inp j =
     ideal_value (selectedCriteriaKeys inp) (allCriteriaDefinition inp) (value_wm inp) j"

definition trail_anti :: "TopsisInput \<Rightarrow> nat \<Rightarrow> real" where
  "trail_anti inp j =
     anti_value (selectedCriteriaKeys inp) (allCriteriaDefinition inp) (value_wm inp) j"

definition trail_dplus :: "TopsisInput \<Rightarrow> nat \<Rightarrow> real" where
  "trail_dplus inp i =
     row_distance (value_wm inp) (trail_ideal inp) (length (selectedCriteriaKeys inp)) i"

definition trail_dminus :: "TopsisInput \<Rightarrow> nat \<Rightarrow> real" where
  "trail_dminus inp i =
     row_distance (value_wm inp) (trail_anti inp) (length (selectedCriteriaKeys inp)) i"

subsection \<open>Notions of the statements\<close>

text \<open>
  \<open>scored_by_closeness c r i\<close>: row \<open>i\<close> of the weighted matrix of the result \<open>r\<close> and its
  ideal and anti-ideal vectors are vectors of \<open>c\<close> finite numbers, the distances of the
  row to the two vectors are the entries \<open>i\<close> of its distance vectors, and its score is
  the relative closeness \<open>D- / (D+ + D-)\<close>, or \<^verbatim>\<open>NaN\<close> when \<open>D+ + D- = 0\<close>.
\<close>

definition scored_by_closeness :: "nat \<Rightarrow> TopsisFullResults \<Rightarrow> nat \<Rightarrow> bool" where
  "scored_by_closeness c r i \<longleftrightarrow>
     (\<exists>row ideal anti.
        weightedMatrix r ! i = map Num row \<and>
        idealSolution r = map Num ideal \<and> antiIdealSolution r = map Num anti \<and>
        length row = c \<and> length ideal = c \<and> length anti = c \<and>
        (let dplus = sqrt (\<Sum>j<c. (row ! j - ideal ! j) ^ 2);
             dminus = sqrt (\<Sum>j<c. (row ! j - anti ! j) ^ 2)
         in distanceToIdeal r ! i = Num dplus \<and>
            distanceToAntiIdeal r ! i = Num dminus \<and>
            score r = (if dplus + dminus = 0 then NaN else Num (dminus / (dplus + dminus))) \<and>
            (dplus + dminus \<noteq> 0 \<longrightarrow>
               0 \<le> dminus / (dplus + dminus) \<and> dminus / (dplus + dminus) \<le> 1)))"

text \<open>
  \<open>catalog_entry defs k\<close>: the entry of the key \<open>k\<close> in the criteria catalog \<open>defs\<close>, which
  is the last entry of the list with that key, if there is one.
\<close>

definition catalog_entry :: "Criterion list \<Rightarrow> CriterionKey \<Rightarrow> Criterion option" where
  "catalog_entry defs k = find (\<lambda>c. key c = k) (rev defs)"








subsection \<open>Example inputs\<close>

definition scenario_material :: "string \<Rightarrow> real \<Rightarrow> Material" where
  "scenario_material n v =
     \<lparr>Material.name = n, type = ''EF, ECS'', pn = [10, 16], temp = 90, corrosion = 7,
      vie = v, pose = 6, acoustique = 7, feu = 5, environnement = 5, surpression = 3\<rparr>"

definition scenarioA_input :: TopsisInput where
  "scenarioA_input =
     \<lparr>selectedMaterialsData = [scenario_material ''Material 1'' 5],
      selectedCriteriaKeys = [Key_vie],
      allCriteriaDefinition = allCriteria,
      costs = Map.empty,
      weights = [Key_vie \<mapsto> 1]\<rparr>"

definition scenarioB_input :: TopsisInput where
  "scenarioB_input =
     \<lparr>selectedMaterialsData =
        [scenario_material ''Material 1'' 3, scenario_material ''Material 2'' 4],
      selectedCriteriaKeys = [Key_vie],
      allCriteriaDefinition = allCriteria,
      costs = Map.empty,
      weights = [Key_vie \<mapsto> 1]\<rparr>"

text \<open>
  The input of scenario B with a catalog that declares the criterion twice, the later
  entry as a cost-type criterion, and with an empty catalog.
\<close>

definition redeclared_input :: TopsisInput where
  "redeclared_input =
     scenarioB_input
       \<lparr>allCriteriaDefinition :=
          [\<lparr>key = Key_vie, label = ''Duree de vie (annees)'', isBenefit = True\<rparr>,
           \<lparr>key = Key_vie, label = ''Duree de vie (annees)'', isBenefit = False\<rparr>]\<rparr>"

definition no_catalog_input :: TopsisInput where
  "no_catalog_input = scenarioB_input\<lparr>allCriteriaDefinition := []\<rparr>"

definition example_input :: TopsisInput where
  "example_input =
     \<lparr>selectedMaterialsData =
        [\<lparr>Material.name = ''Cuivre'', type = ''EF, ECS'', pn = [10, 16, 20, 25], temp = 90,
          corrosion = 10, vie = 70, pose = 3, acoustique = 7, feu = 7, environnement = 3,
          surpression = 10\<rparr>,
         \<lparr>Material.name = ''PER'', type = ''EF, ECS'', pn = [6, 10, 16], temp = 90,
          corrosion = 7, vie = 50, pose = 9, acoustique = 7, feu = 5, environnement = 5,
          surpression = 3\<rparr>,
         \<lparr>Material.name = ''PVC'', type = ''EV'', pn = [6, 10, 16, 25], temp = 60,
          corrosion = 8, vie = 50, pose = 9, acoustique = 6, feu = 5, environnement = 5,
          surpression = 6\<rparr>],
      selectedCriteriaKeys = [Key_vie, Key_cout],
      allCriteriaDefinition = allCriteria,
      costs = [''Cuivre'' \<mapsto> 120, ''PER'' \<mapsto> 35],
      weights = [Key_vie \<mapsto> 3 / 5, Key_cout \<mapsto> 2 / 5]\<rparr>"







section \<open>The stages in closed form\<close>

lemma shape_zero_matrix: "shape (zero_matrix r c) r c"
  by (simp add: shape_def zero_matrix_def)

lemma shape_set_cell: "shape m r c \<Longrightarrow> shape (set_cell m i j v) r c"
proof -
  assume s: "shape m r c"
  have "length ((m[i := (m ! i)[j := v]]) ! k) = c" if "k < r" for k
    using that s by (cases "k = i") (simp_all add: shape_def)
  then show ?thesis
    using s by (simp add: shape_def set_cell_def)
qed

lemma set_cell_nth:
  "shape m r c \<Longrightarrow> i < r \<Longrightarrow> j < c \<Longrightarrow> i' < r \<Longrightarrow> j' < c \<Longrightarrow>
   set_cell m i j v ! i' ! j' = (if i' = i \<and> j' = j then v else m ! i' ! j')"
  unfolding shape_def set_cell_def
  by (auto simp: nth_list_update)

lemma shape_matrix_of: "shape (matrix_of r c f) r c"
  by (simp add: shape_def matrix_of_def)

lemma matrix_of_nth: "i < r \<Longrightarrow> j < c \<Longrightarrow> matrix_of r c f ! i ! j = f i j"
  by (simp add: matrix_of_def)

lemma matrix_of_eq:
  assumes "shape m r c" "\<And>i j. i < r \<Longrightarrow> j < c \<Longrightarrow> m ! i ! j = f i j"
  shows "m = matrix_of r c f"
proof (rule nth_equalityI)
  show "length m = length (matrix_of r c f)"
    using assms(1) by (simp add: shape_def matrix_of_def)
  fix i assume "i < length m"
  then have i: "i < r" using assms(1) by (simp add: shape_def)
  show "m ! i = matrix_of r c f ! i"
  proof (rule nth_equalityI)
    show "length (m ! i) = length (matrix_of r c f ! i)"
      using assms(1) i by (simp add: shape_def matrix_of_def)
    fix j assume "j < length (m ! i)"
    then have "j < c" using assms(1) i by (simp add: shape_def)
    then show "m ! i ! j = matrix_of r c f ! i ! j"
      using i by (simp add: assms(2) matrix_of_nth)
  qed
qed

lemma map_matrix_of: "map (map g) (matrix_of r c f) = matrix_of r c (\<lambda>i j. g (f i j))"
  by (simp add: matrix_of_def)

lemma fill_column:
  assumes "shape m r c" "n \<le> r" "j < c"
  shows "shape (fold (\<lambda>i m. set_cell m i j (f i)) [0..<n] m) r c \<and>
         (\<forall>i' j'. i' < r \<longrightarrow> j' < c \<longrightarrow>
            fold (\<lambda>i m. set_cell m i j (f i)) [0..<n] m ! i' ! j' =
              (if i' < n \<and> j' = j then f i' else m ! i' ! j'))"
  using assms(2)
proof (induction n)
  case 0
  then show ?case using assms(1) by simp
next
  case (Suc n)
  then have IH: "shape (fold (\<lambda>i m. set_cell m i j (f i)) [0..<n] m) r c"
    "\<And>i' j'. i' < r \<Longrightarrow> j' < c \<Longrightarrow>
       fold (\<lambda>i m. set_cell m i j (f i)) [0..<n] m ! i' ! j' =
         (if i' < n \<and> j' = j then f i' else m ! i' ! j')"
    by auto
  from Suc.prems have n: "n < r" by simp
  show ?case
    using IH(1) n assms(3)
    by (auto simp: shape_set_cell set_cell_nth [OF IH(1)] IH(2) less_Suc_eq)
qed

lemma fill_row:
  assumes "shape m r c" "i < r" "n \<le> c"
  shows "shape (fold (\<lambda>j m. set_cell m i j (f j)) [0..<n] m) r c \<and>
         (\<forall>i' j'. i' < r \<longrightarrow> j' < c \<longrightarrow>
            fold (\<lambda>j m. set_cell m i j (f j)) [0..<n] m ! i' ! j' =
              (if i' = i \<and> j' < n then f j' else m ! i' ! j'))"
  using assms(3)
proof (induction n)
  case 0
  then show ?case using assms(1) by simp
next
  case (Suc n)
  then have IH: "shape (fold (\<lambda>j m. set_cell m i j (f j)) [0..<n] m) r c"
    "\<And>i' j'. i' < r \<Longrightarrow> j' < c \<Longrightarrow>
       fold (\<lambda>j m. set_cell m i j (f j)) [0..<n] m ! i' ! j' =
         (if i' = i \<and> j' < n then f j' else m ! i' ! j')"
    by auto
  from Suc.prems have n: "n < c" by simp
  show ?case
    using IH(1) n assms(2)
    by (auto simp: shape_set_cell set_cell_nth [OF IH(1)] IH(2) less_Suc_eq)
qed

subsection \<open>Stage 1\<close>

lemma build_initialMatrix_cell:
  "i < length mats \<Longrightarrow> j < length keys \<Longrightarrow>
   build_initialMatrix mats keys cs ! i ! j = cell_value cs (mats ! i) (keys ! j)"
  by (simp add: build_initialMatrix_def)

subsection \<open>The range of the doubles\<close>

lemma overflow_threshold_large: "2 ^ 1023 < overflow_threshold"
proof -
  have "(2::real) ^ 970 < 2 ^ 1023"
    by (rule power_strict_increasing) simp_all
  moreover have "(2::real) ^ 1024 = 2 ^ 1023 + 2 ^ 1023"
    by (simp add: power_Suc [symmetric] del: power_Suc)
  ultimately show ?thesis by (simp add: overflow_threshold_def)
qed

lemma overflow_threshold_pos: "0 < overflow_threshold"
  using overflow_threshold_large less_trans [of 0 "2 ^ 1023 :: real" overflow_threshold]
  by simp

text \<open>Numbers up to \<open>10\<^sup>9\<close>, say, are far inside the range.\<close>

lemma in_range: "r \<le> 10 ^ 9 \<Longrightarrow> \<not> overflow_threshold \<le> r"
proof -
  assume r: "r \<le> 10 ^ 9"
  have "(10::real) ^ 9 \<le> 16 ^ 9" by (rule power_mono) simp_all
  also have "\<dots> = 2 ^ 36" by simp
  also have "\<dots> \<le> 2 ^ 1023" by (rule power_increasing) simp_all
  finally have "r \<le> 2 ^ 1023" using r by simp
  with overflow_threshold_large show ?thesis by simp
qed


subsection \<open>Stage 2\<close>

lemma col_sumsq_nonneg: "0 \<le> col_sumsq im r j"
  by (simp add: col_sumsq_def sum_nonneg)

lemma col_sumsq_Suc: "col_sumsq im (Suc r) j = col_sumsq im r j + (im ! r ! j) ^ 2"
  by (simp add: col_sumsq_def)

text \<open>
  The running sum of the squares is the exact sum as long as it is in range, and
  \<^verbatim>\<open>Infinity\<close> from the first overflow on.
\<close>

lemma sumOfSquares_eq:
  "sumOfSquares im r j =
     (if overflow_threshold \<le> col_sumsq im r j then PosInf else Num (col_sumsq im r j))"
proof -
  let ?step = "\<lambda>i s. js_range (js_add s (js_range (js_sq (Num (im ! i ! j)))))"
  have "fold ?step [0..<n] (Num 0) =
          (if overflow_threshold \<le> col_sumsq im n j then PosInf else Num (col_sumsq im n j))"
    for n
  proof (induction n)
    case 0
    show ?case using overflow_threshold_pos by (simp add: col_sumsq_def)
  next
    case (Suc n)
    let ?S = "col_sumsq im n j" and ?x = "im ! n ! j"
    have S0: "0 \<le> ?S" by (rule col_sumsq_nonneg)
    have x0: "0 \<le> ?x ^ 2" by simp
    have neg: "\<not> a \<le> - overflow_threshold" if "0 \<le> a" for a :: real
      using that overflow_threshold_pos by simp
    have nx: "\<not> ?x ^ 2 \<le> - overflow_threshold" by (rule neg [OF x0])
    show ?case
    proof (cases "overflow_threshold \<le> ?S")
      case True
      then have "overflow_threshold \<le> ?S + ?x ^ 2" using x0 by linarith
      with True Suc nx show ?thesis
        by (simp add: col_sumsq_Suc)
    next
      case False
      show ?thesis
      proof (cases "overflow_threshold \<le> ?x ^ 2")
        case True
        then have "overflow_threshold \<le> ?S + ?x ^ 2" using S0 by linarith
        with True False Suc nx show ?thesis
          by (simp add: col_sumsq_Suc)
      next
        case x: False
        have "0 \<le> ?S + ?x ^ 2" using S0 x0 by linarith
        from neg [OF this] x False Suc nx show ?thesis
          by (simp add: col_sumsq_Suc)
      qed
    qed
  qed
  then show ?thesis by (simp add: sumOfSquares_def)
qed

lemma normalize_column_eq:
  "normalize_column im r j nm =
     fold (\<lambda>i m. set_cell m i j (Num (normalized_cell im r i j))) [0..<r] nm"
proof (cases "overflow_threshold \<le> col_sumsq im r j")
  case True
  then show ?thesis
    by (simp add: normalize_column_def sumOfSquares_eq normalized_cell_def Let_def)
next
  case False
  have "\<not> col_sumsq im r j < 0" using col_sumsq_nonneg [of im r j] by simp
  with False show ?thesis
    by (simp add: normalize_column_def sumOfSquares_eq normalized_cell_def col_norm_def Let_def)
qed

lemma fill_columns:
  assumes "shape m r c" "k \<le> c"
  shows "shape (fold (\<lambda>j m. fold (\<lambda>i m. set_cell m i j (g i j)) [0..<r] m) [0..<k] m) r c \<and>
         (\<forall>i j. i < r \<longrightarrow> j < c \<longrightarrow>
            fold (\<lambda>j m. fold (\<lambda>i m. set_cell m i j (g i j)) [0..<r] m) [0..<k] m ! i ! j =
              (if j < k then g i j else m ! i ! j))"
  using assms(2)
proof (induction k)
  case 0
  then show ?case using assms(1) by simp
next
  case (Suc k)
  let ?prev = "fold (\<lambda>j m. fold (\<lambda>i m. set_cell m i j (g i j)) [0..<r] m) [0..<k] m"
  from Suc have IH: "shape ?prev r c"
    "\<And>i j. i < r \<Longrightarrow> j < c \<Longrightarrow> ?prev ! i ! j = (if j < k then g i j else m ! i ! j)"
    by auto
  from Suc.prems have k: "k < c" by simp
  note col = fill_column [where f = "\<lambda>i. g i k", OF IH(1) order_refl k]
  show ?case
    using col IH(2) by (auto simp: less_Suc_eq)
qed

lemma fill_rows:
  assumes "shape m r c" "k \<le> r"
  shows "shape (fold (\<lambda>i m. fold (\<lambda>j m. set_cell m i j (g i j)) [0..<c] m) [0..<k] m) r c \<and>
         (\<forall>i j. i < r \<longrightarrow> j < c \<longrightarrow>
            fold (\<lambda>i m. fold (\<lambda>j m. set_cell m i j (g i j)) [0..<c] m) [0..<k] m ! i ! j =
              (if i < k then g i j else m ! i ! j))"
  using assms(2)
proof (induction k)
  case 0
  then show ?case using assms(1) by simp
next
  case (Suc k)
  let ?prev = "fold (\<lambda>i m. fold (\<lambda>j m. set_cell m i j (g i j)) [0..<c] m) [0..<k] m"
  from Suc have IH: "shape ?prev r c"
    "\<And>i j. i < r \<Longrightarrow> j < c \<Longrightarrow> ?prev ! i ! j = (if i < k then g i j else m ! i ! j)"
    by auto
  from Suc.prems have k: "k < r" by simp
  note row = fill_row [where f = "\<lambda>j. g k j", OF IH(1) k order_refl]
  show ?case
    using row IH(2) by (auto simp: less_Suc_eq)
qed

lemma build_normalizedMatrix_eq:
  "build_normalizedMatrix im r c =
     fold (\<lambda>j m. fold (\<lambda>i m. set_cell m i j (Num (normalized_cell im r i j))) [0..<r] m) [0..<c]
       (zero_matrix r c)"
proof -
  have "normalize_column im r =
          (\<lambda>j m. fold (\<lambda>i m. set_cell m i j (Num (normalized_cell im r i j))) [0..<r] m)"
    by (intro ext) (rule normalize_column_eq)
  then show ?thesis by (simp add: build_normalizedMatrix_def)
qed

lemma shape_build_normalizedMatrix: "shape (build_normalizedMatrix im r c) r c"
  using fill_columns [where g = "\<lambda>i j. Num (normalized_cell im r i j)" and r = r and c = c,
      OF shape_zero_matrix order_refl]
  by (simp add: build_normalizedMatrix_eq)

lemma build_normalizedMatrix_cell:
  "i < r \<Longrightarrow> j < c \<Longrightarrow> build_normalizedMatrix im r c ! i ! j = Num (normalized_cell im r i j)"
  using fill_columns [where g = "\<lambda>i j. Num (normalized_cell im r i j)" and r = r and c = c,
      OF shape_zero_matrix order_refl]
  by (simp add: build_normalizedMatrix_eq)

subsection \<open>Stage 3\<close>

lemma build_weightedMatrix_eq:
  "build_weightedMatrix nm keys ws r c =
     fold (\<lambda>i m. fold (\<lambda>j m. set_cell m i j (js_mul (nm ! i ! j) (Num (or_zero (ws (keys ! j))))))
                   [0..<c] m) [0..<r]
       (zero_matrix r c)"
proof -
  have "weight_row nm keys ws c =
          (\<lambda>i m. fold (\<lambda>j m. set_cell m i j (js_mul (nm ! i ! j) (Num (or_zero (ws (keys ! j))))))
                   [0..<c] m)"
    by (intro ext) (simp add: weight_row_def Let_def)
  then show ?thesis by (simp add: build_weightedMatrix_def)
qed

lemma shape_build_weightedMatrix: "shape (build_weightedMatrix nm keys ws r c) r c"
  using fill_rows [where g = "\<lambda>i j. js_mul (nm ! i ! j) (Num (or_zero (ws (keys ! j))))"
      and r = r and c = c, OF shape_zero_matrix order_refl]
  by (simp add: build_weightedMatrix_eq)

lemma build_weightedMatrix_cell:
  "i < r \<Longrightarrow> j < c \<Longrightarrow>
   build_weightedMatrix nm keys ws r c ! i ! j =
     js_mul (nm ! i ! j) (Num (or_zero (ws (keys ! j))))"
  using fill_rows [where g = "\<lambda>i j. js_mul (nm ! i ! j) (Num (or_zero (ws (keys ! j))))"
      and r = r and c = c, OF shape_zero_matrix order_refl]
  by (simp add: build_weightedMatrix_eq)

subsection \<open>Loops that fill a vector\<close>

lemma fill_vector:
  assumes "n \<le> length xs"
  shows "length (fold (\<lambda>i v. v[i := a i]) [0..<n] xs) = length xs \<and>
         (\<forall>i<length xs. fold (\<lambda>i v. v[i := a i]) [0..<n] xs ! i = (if i < n then a i else xs ! i))"
  using assms
  by (induction n) (auto simp: nth_list_update less_Suc_eq)

lemma fill_vector_pair:
  assumes "n \<le> length xs" "n \<le> length ys"
  shows "fold (\<lambda>i p. ((fst p)[i := a i], (snd p)[i := b i])) [0..<n] (xs, ys) =
         (fold (\<lambda>i v. v[i := a i]) [0..<n] xs, fold (\<lambda>i v. v[i := b i]) [0..<n] ys)"
  using assms by (induction n) auto

subsection \<open>Stage 4\<close>

lemma solution_step_eq:
  "solution_step keys (build_criteriaMap defs) wm =
     (\<lambda>j p. ((fst p)[j := ideal_entry keys defs wm j], (snd p)[j := anti_entry keys defs wm j]))"
  by (intro ext)
     (simp add: solution_step_def ideal_entry_def anti_entry_def column_values_def Let_def)

lemma build_solutions_eq:
  "build_solutions keys defs wm c =
     (fold (\<lambda>j v. v[j := ideal_entry keys defs wm j]) [0..<c] (replicate c (Num 0)),
      fold (\<lambda>j v. v[j := anti_entry keys defs wm j]) [0..<c] (replicate c (Num 0)))"
  by (simp add: build_solutions_def solution_step_eq fill_vector_pair)

lemma build_solutions_length:
  "length (fst (build_solutions keys defs wm c)) = c"
  "length (snd (build_solutions keys defs wm c)) = c"
  using fill_vector [of c "replicate c (Num 0)"]
  by (simp_all add: build_solutions_eq)

lemma build_solutions_nth:
  assumes "j < c"
  shows "fst (build_solutions keys defs wm c) ! j = ideal_entry keys defs wm j"
    and "snd (build_solutions keys defs wm c) ! j = anti_entry keys defs wm j"
  using assms fill_vector [of c "replicate c (Num 0)"]
  by (simp_all add: build_solutions_eq)

text \<open>\<^verbatim>\<open>Math.max\<close> and \<^verbatim>\<open>Math.min\<close> of finite numbers.\<close>

lemma fold_js_max_Num: "fold js_max (map Num xs) (Num a) = Num (fold max xs a)"
  by (induction xs arbitrary: a) simp_all

lemma fold_js_min_Num: "fold js_min (map Num xs) (Num a) = Num (fold min xs a)"
  by (induction xs arbitrary: a) simp_all

lemma math_max_Max: "xs \<noteq> [] \<Longrightarrow> math_max (map Num xs) = Num (Max (set xs))"
  by (cases xs) (simp_all add: math_max_def fold_js_max_Num Max.set_eq_fold [symmetric])

lemma math_min_Min: "xs \<noteq> [] \<Longrightarrow> math_min (map Num xs) = Num (Min (set xs))"
  by (cases xs) (simp_all add: math_min_def fold_js_min_Num Min.set_eq_fold [symmetric])

subsection \<open>Stage 5\<close>

lemma separation_sums_Num:
  assumes "\<forall>j<c. wm ! i ! j = Num (W j)"
    "\<forall>j<c. ideal ! j = Num (I j)" "\<forall>j<c. anti ! j = Num (A j)"
  shows "separation_sums wm ideal anti c i =
           (Num (\<Sum>j<c. (W j - I j) ^ 2), Num (\<Sum>j<c. (W j - A j) ^ 2))"
proof -
  have "k \<le> c \<Longrightarrow>
        fold (\<lambda>j sumSq.
             (js_add (fst sumSq) (js_sq (js_sub (wm ! i ! j) (ideal ! j))),
              js_add (snd sumSq) (js_sq (js_sub (wm ! i ! j) (anti ! j)))))
          [0..<k] (Num 0, Num 0) =
        (Num (\<Sum>j<k. (W j - I j) ^ 2), Num (\<Sum>j<k. (W j - A j) ^ 2))" for k
    using assms by (induction k) simp_all
  then show ?thesis by (simp add: separation_sums_def)
qed

lemma build_distances_Num:
  assumes "\<forall>i<r. \<forall>j<c. wmj ! i ! j = Num (wm ! i ! j)"
    "\<forall>j<c. ideal ! j = Num (I j)" "\<forall>j<c. anti ! j = Num (A j)"
  shows "build_distances wmj ideal anti r c =
           (map (\<lambda>i. Num (row_distance wm I c i)) [0..<r],
            map (\<lambda>i. Num (row_distance wm A c i)) [0..<r])"
proof -
  have neg: "\<not> (\<Sum>j<c. (wm ! i ! j - S j) ^ 2) < 0" for i S
    by (simp add: not_less sum_nonneg)
  have sums: "separation_sums wmj ideal anti c i =
                (Num (\<Sum>j<c. (wm ! i ! j - I j) ^ 2), Num (\<Sum>j<c. (wm ! i ! j - A j) ^ 2))"
    if "i < r" for i
    by (rule separation_sums_Num) (use assms that in simp_all)
  have vec: "fold (\<lambda>i v. v[i := f i]) [0..<r] (replicate r (Num 0)) = map f [0..<r]" for f
    using fill_vector [of r "replicate r (Num 0)" f]
    by (intro nth_equalityI) simp_all
  let ?step = "\<lambda>i dists.
             let sumSq = separation_sums wmj ideal anti c i
             in ((fst dists)[i := js_sqrt (fst sumSq)], (snd dists)[i := js_sqrt (snd sumSq)])"
  let ?step' = "\<lambda>i p. ((fst p)[i := Num (row_distance wm I c i)],
                  (snd p)[i := Num (row_distance wm A c i)])"
  have "fold ?step [0..<k] d = fold ?step' [0..<k] d" if "k \<le> r" for k d
    using that
  proof (induction k)
    case 0
    show ?case by simp
  next
    case (Suc k)
    then have "k < r" by simp
    with Suc show ?case
      by (simp add: sums row_distance_def neg Let_def)
  qed
  then show ?thesis
    by (simp add: build_distances_def fill_vector_pair vec)
qed

subsection \<open>Stage 6\<close>

lemma closeness_Num:
  "closeness (Num dp) (Num dm) = (if dp + dm = 0 then NaN else Num (dm / (dp + dm)))"
  by (simp add: closeness_def Let_def)

lemma build_scores_eq:
  assumes "length dI = r" "length dA = r"
  shows "build_scores dI dA r = map (\<lambda>i. closeness (dI ! i) (dA ! i)) [0..<r]"
  using fill_vector [of r "replicate r (Num 0)" "\<lambda>i. closeness (dI ! i) (dA ! i)"]
  by (intro nth_equalityI) (simp_all add: build_scores_def)

subsection \<open>The computation trail of a run\<close>

lemma run_nonempty:
  assumes "selectedMaterialsData inp \<noteq> []" "selectedCriteriaKeys inp \<noteq> []"
  shows "runTopsisCalculation inp =
           Inr (array_sort compare_results
                  (map (trail_result inp) [0..<length (selectedMaterialsData inp)]))"
proof -
  obtain m ms where mats: "selectedMaterialsData inp = m # ms"
    using assms(1) by (cases "selectedMaterialsData inp") auto
  have im: "build_initialMatrix (m # ms) (selectedCriteriaKeys inp) (costs inp) =
              map (\<lambda>k. cell_value (costs inp) m k) (selectedCriteriaKeys inp) #
              build_initialMatrix ms (selectedCriteriaKeys inp) (costs inp)"
    by (simp add: build_initialMatrix_def)
  have len: "length (build_initialMatrix ms (selectedCriteriaKeys inp) (costs inp)) = length ms"
    by (simp add: build_initialMatrix_def)
  show ?thesis
    unfolding runTopsisCalculation_def
    using assms(2)
    by (simp add: mats im len Let_def trail_result_def [abs_def] trail_scores_def trail_dists_def
        trail_sols_def trail_wm_def trail_nm_def trail_im_def del: upt_Suc)
qed

subsection \<open>The sort\<close>

lemma mset_insert_by: "mset (insert_by cmp a xs) = add_mset a (mset xs)"
  by (induction xs) simp_all

lemma mset_array_sort: "mset (array_sort cmp xs) = mset xs"
  by (induction xs) (simp_all add: array_sort_def mset_insert_by)

lemma set_array_sort: "set (array_sort cmp xs) = set xs"
  using mset_array_sort [of cmp xs] by (metis set_mset_mset)

lemma length_array_sort: "length (array_sort cmp xs) = length xs"
  using mset_array_sort [of cmp xs] by (metis size_mset)




subsection \<open>The trail in closed form\<close>

lemma shape_value_nm:
  "shape (value_nm inp) (length (selectedMaterialsData inp)) (length (selectedCriteriaKeys inp))"
  by (simp add: value_nm_def shape_matrix_of)

lemma shape_value_wm:
  "shape (value_wm inp) (length (selectedMaterialsData inp)) (length (selectedCriteriaKeys inp))"
  by (simp add: value_wm_def shape_matrix_of)

lemma value_nm_cell:
  "i < length (selectedMaterialsData inp) \<Longrightarrow> j < length (selectedCriteriaKeys inp) \<Longrightarrow>
   value_nm inp ! i ! j = normalized_cell (trail_im inp) (length (selectedMaterialsData inp)) i j"
  by (simp add: value_nm_def matrix_of_nth)

lemma value_wm_cell:
  "i < length (selectedMaterialsData inp) \<Longrightarrow> j < length (selectedCriteriaKeys inp) \<Longrightarrow>
   value_wm inp ! i ! j =
     value_nm inp ! i ! j * or_zero (weights inp (selectedCriteriaKeys inp ! j))"
  by (simp add: value_wm_def matrix_of_nth weighted_cell_def)

lemma trail_nm_eq: "trail_nm inp = map (map Num) (value_nm inp)"
proof -
  let ?n = "length (selectedMaterialsData inp)" and ?c = "length (selectedCriteriaKeys inp)"
  have "trail_nm inp = matrix_of ?n ?c (\<lambda>i j. Num (normalized_cell (trail_im inp) ?n i j))"
    by (rule matrix_of_eq)
       (simp_all add: trail_nm_def shape_build_normalizedMatrix build_normalizedMatrix_cell)
  then show ?thesis by (simp add: value_nm_def map_matrix_of)
qed

lemma trail_wm_eq: "trail_wm inp = map (map Num) (value_wm inp)"
proof -
  let ?n = "length (selectedMaterialsData inp)" and ?c = "length (selectedCriteriaKeys inp)"
  have cell: "trail_nm inp ! i ! j = Num (value_nm inp ! i ! j)" if "i < ?n" "j < ?c" for i j
    using that shape_value_nm [of inp] by (simp add: trail_nm_eq shape_def)
  have "trail_wm inp =
          matrix_of ?n ?c (\<lambda>i j. Num (weighted_cell (value_nm inp) (selectedCriteriaKeys inp)
            (weights inp) i j))"
    by (rule matrix_of_eq)
       (simp_all add: trail_wm_def shape_build_weightedMatrix build_weightedMatrix_cell cell
          weighted_cell_def)
  then show ?thesis by (simp add: value_wm_def map_matrix_of)
qed

lemma trail_nm_cell:
  "i < length (selectedMaterialsData inp) \<Longrightarrow> j < length (selectedCriteriaKeys inp) \<Longrightarrow>
   trail_nm inp ! i ! j = Num (value_nm inp ! i ! j)"
  using shape_value_nm [of inp] by (simp add: trail_nm_eq shape_def)

lemma trail_wm_cell:
  "i < length (selectedMaterialsData inp) \<Longrightarrow> j < length (selectedCriteriaKeys inp) \<Longrightarrow>
   trail_wm inp ! i ! j = Num (value_wm inp ! i ! j)"
  using shape_value_wm [of inp] by (simp add: trail_wm_eq shape_def)

lemma trail_wm_row:
  "i < length (selectedMaterialsData inp) \<Longrightarrow> trail_wm inp ! i = map Num (value_wm inp ! i)"
  using shape_value_wm [of inp] by (simp add: trail_wm_eq shape_def)

lemma column_values_Num:
  assumes "shape wm r c" "j < c"
  shows "column_values (map (map Num) wm) j = map Num (column_values wm j)"
proof -
  have "\<forall>row \<in> set wm. j < length row"
    using assms by (auto simp: shape_def in_set_conv_nth)
  then show ?thesis by (simp add: column_values_def)
qed

lemma value_wm_nonempty: "selectedMaterialsData inp \<noteq> [] \<Longrightarrow> value_wm inp \<noteq> []"
  using shape_value_wm [of inp] by (auto simp: shape_def)

lemma trail_column:
  assumes "j < length (selectedCriteriaKeys inp)"
  shows "map (\<lambda>row. row ! j) (trail_wm inp) = map Num (column_values (value_wm inp) j)"
  using column_values_Num [OF shape_value_wm assms]
  by (simp add: trail_wm_eq column_values_def)

lemma trail_sols_nth:
  assumes "selectedMaterialsData inp \<noteq> []" "j < length (selectedCriteriaKeys inp)"
  shows "fst (trail_sols inp) ! j = Num (trail_ideal inp j)"
    and "snd (trail_sols inp) ! j = Num (trail_anti inp j)"
proof -
  have col: "column_values (trail_wm inp) j = map Num (column_values (value_wm inp) j)"
    using trail_column [OF assms(2)] by (simp add: column_values_def)
  have ne: "column_values (value_wm inp) j \<noteq> []"
    using value_wm_nonempty [OF assms(1)] by (simp add: column_values_def)
  show "fst (trail_sols inp) ! j = Num (trail_ideal inp j)"
    using assms(2)
    by (simp add: trail_sols_def build_solutions_nth ideal_entry_def col math_max_Max [OF ne]
        math_min_Min [OF ne] trail_ideal_def ideal_value_def)
  show "snd (trail_sols inp) ! j = Num (trail_anti inp j)"
    using assms(2)
    by (simp add: trail_sols_def build_solutions_nth anti_entry_def col math_max_Max [OF ne]
        math_min_Min [OF ne] trail_anti_def anti_value_def)
qed

lemma trail_sols_length:
  "length (fst (trail_sols inp)) = length (selectedCriteriaKeys inp)"
  "length (snd (trail_sols inp)) = length (selectedCriteriaKeys inp)"
  by (simp_all add: trail_sols_def build_solutions_length)

lemma trail_dists_eq:
  assumes "selectedMaterialsData inp \<noteq> []"
  shows "trail_dists inp =
           (map (\<lambda>i. Num (trail_dplus inp i)) [0..<length (selectedMaterialsData inp)],
            map (\<lambda>i. Num (trail_dminus inp i)) [0..<length (selectedMaterialsData inp)])"
  unfolding trail_dists_def trail_dplus_def trail_dminus_def
  by (rule build_distances_Num) (simp_all add: trail_sols_nth [OF assms] trail_wm_cell)

lemma trail_scores_eq:
  assumes "selectedMaterialsData inp \<noteq> []"
  shows "trail_scores inp =
           map (\<lambda>i. score_value (trail_dplus inp i) (trail_dminus inp i))
             [0..<length (selectedMaterialsData inp)]"
  by (simp add: trail_scores_def trail_dists_eq [OF assms] build_scores_eq closeness_Num
      score_value_def)

lemma row_distance_nonneg: "0 \<le> row_distance wm S c i"
  by (simp add: row_distance_def sum_nonneg)

lemma trail_dplus_nonneg: "0 \<le> trail_dplus inp i"
  by (simp add: trail_dplus_def row_distance_nonneg)

lemma trail_dminus_nonneg: "0 \<le> trail_dminus inp i"
  by (simp add: trail_dminus_def row_distance_nonneg)

lemma run_set:
  assumes "selectedMaterialsData inp \<noteq> []" "selectedCriteriaKeys inp \<noteq> []"
  shows "\<exists>rs. runTopsisCalculation inp = Inr rs \<and> rs \<noteq> [] \<and>
           set rs = trail_result inp ` {0..<length (selectedMaterialsData inp)}"
proof -
  let ?rs = "array_sort compare_results
               (map (trail_result inp) [0..<length (selectedMaterialsData inp)])"
  have "length ?rs = length (selectedMaterialsData inp)"
    by (simp add: length_array_sort)
  with assms(1) have "?rs \<noteq> []" by auto
  moreover have "set ?rs = trail_result inp ` {0..<length (selectedMaterialsData inp)}"
    by (simp add: set_array_sort)
  ultimately show ?thesis
    using run_nonempty [OF assms] by blast
qed

lemma trail_im_cell:
  "i < length (selectedMaterialsData inp) \<Longrightarrow> j < length (selectedCriteriaKeys inp) \<Longrightarrow>
   trail_im inp ! i ! j =
     cell_value (costs inp) (selectedMaterialsData inp ! i) (selectedCriteriaKeys inp ! j)"
  by (simp add: trail_im_def build_initialMatrix_cell)

lemma or_zero_default: "or_zero v = (case v of None \<Rightarrow> 0 | Some x \<Rightarrow> x)"
  by (simp add: or_zero_def split: option.splits)



subsection \<open>The criteria map\<close>

lemma build_criteriaMap_snoc:
  "build_criteriaMap (defs @ [c]) = (build_criteriaMap defs)(key c \<mapsto> c)"
  by (simp add: build_criteriaMap_def)

lemma build_criteriaMap_None:
  "build_criteriaMap defs k = None \<longleftrightarrow> k \<notin> key ` set defs"
  by (induction defs rule: rev_induct) (auto simp: build_criteriaMap_snoc build_criteriaMap_def)

text \<open>The entry of a key in the criteria map is the last catalog entry with that key.\<close>

lemma build_criteriaMap_catalog: "build_criteriaMap defs k = catalog_entry defs k"
  by (induction defs rule: rev_induct)
     (simp_all add: build_criteriaMap_snoc build_criteriaMap_def catalog_entry_def)

lemma catalog_entry_None: "catalog_entry defs k = None \<longleftrightarrow> k \<notin> key ` set defs"
  using build_criteriaMap_None [of defs k] by (simp add: build_criteriaMap_catalog)

lemma trail_sols_column:
  assumes "selectedMaterialsData inp \<noteq> []" "j < length (selectedCriteriaKeys inp)"
  shows "benefit_flag (catalog_entry (allCriteriaDefinition inp) (selectedCriteriaKeys inp ! j)) \<Longrightarrow>
           fst (trail_sols inp) ! j = Num (Max (set (column_values (value_wm inp) j))) \<and>
           snd (trail_sols inp) ! j = Num (Min (set (column_values (value_wm inp) j)))"
    and "\<not> benefit_flag (catalog_entry (allCriteriaDefinition inp) (selectedCriteriaKeys inp ! j)) \<Longrightarrow>
           fst (trail_sols inp) ! j = Num (Min (set (column_values (value_wm inp) j))) \<and>
           snd (trail_sols inp) ! j = Num (Max (set (column_values (value_wm inp) j)))"
  using assms
  by (simp_all add: trail_sols_nth trail_ideal_def trail_anti_def ideal_value_def anti_value_def
      build_criteriaMap_catalog)

lemma length_filter_count:
  "length (filter (\<lambda>r. f r = a) xs) = count (mset (map f xs)) a"
  by (induction xs) simp_all

lemma trail_sols_map:
  assumes "selectedMaterialsData inp \<noteq> []"
  shows "fst (trail_sols inp) = map Num (map (trail_ideal inp) [0..<length (selectedCriteriaKeys inp)])"
    and "snd (trail_sols inp) = map Num (map (trail_anti inp) [0..<length (selectedCriteriaKeys inp)])"
  by (intro nth_equalityI; simp add: trail_sols_length trail_sols_nth [OF assms])+

lemma trail_result_scored:
  assumes "selectedMaterialsData inp \<noteq> []" "i < length (selectedMaterialsData inp)"
  shows "scored_by_closeness (length (selectedCriteriaKeys inp)) (trail_result inp i) i"
proof -
  let ?c = "length (selectedCriteriaKeys inp)"
  let ?row = "value_wm inp ! i"
  let ?ideal = "map (trail_ideal inp) [0..<?c]"
  let ?anti = "map (trail_anti inp) [0..<?c]"
  have dp: "sqrt (\<Sum>j<?c. (?row ! j - ?ideal ! j) ^ 2) = trail_dplus inp i"
    by (simp add: trail_dplus_def row_distance_def)
  have dm: "sqrt (\<Sum>j<?c. (?row ! j - ?anti ! j) ^ 2) = trail_dminus inp i"
    by (simp add: trail_dminus_def row_distance_def)
  have nn: "0 \<le> trail_dplus inp i" "0 \<le> trail_dminus inp i"
    by (rule trail_dplus_nonneg, rule trail_dminus_nonneg)
  have bound: "trail_dplus inp i + trail_dminus inp i \<noteq> 0 \<longrightarrow>
        0 \<le> trail_dminus inp i / (trail_dplus inp i + trail_dminus inp i) \<and>
        trail_dminus inp i / (trail_dplus inp i + trail_dminus inp i) \<le> 1"
    using nn by (simp add: divide_le_eq_1)
  have sc: "score (trail_result inp i) =
        (if trail_dplus inp i + trail_dminus inp i = 0 then NaN
         else Num (trail_dminus inp i / (trail_dplus inp i + trail_dminus inp i)))"
    using assms(2)
    by (simp add: trail_result_def trail_scores_eq [OF assms(1)] score_value_def)
  have di: "distanceToIdeal (trail_result inp i) ! i = Num (trail_dplus inp i)"
    "distanceToAntiIdeal (trail_result inp i) ! i = Num (trail_dminus inp i)"
    using assms(2) by (simp_all add: trail_result_def trail_dists_eq [OF assms(1)])
  have wm: "weightedMatrix (trail_result inp i) ! i = map Num ?row"
    using assms(2) by (simp add: trail_result_def trail_wm_row)
  have len: "length ?row = ?c"
    using shape_value_wm [of inp] assms(2) by (simp add: shape_def)
  have s1: "idealSolution (trail_result inp i) = map Num ?ideal"
    "antiIdealSolution (trail_result inp i) = map Num ?anti"
    using trail_sols_map [OF assms(1)] by (simp_all add: trail_result_def)
  have "weightedMatrix (trail_result inp i) ! i = map Num ?row \<and>
        idealSolution (trail_result inp i) = map Num ?ideal \<and>
        antiIdealSolution (trail_result inp i) = map Num ?anti \<and>
        length ?row = ?c \<and> length ?ideal = ?c \<and> length ?anti = ?c \<and>
        (let dplus = sqrt (\<Sum>j<?c. (?row ! j - ?ideal ! j) ^ 2);
             dminus = sqrt (\<Sum>j<?c. (?row ! j - ?anti ! j) ^ 2)
         in distanceToIdeal (trail_result inp i) ! i = Num dplus \<and>
            distanceToAntiIdeal (trail_result inp i) ! i = Num dminus \<and>
            score (trail_result inp i) =
              (if dplus + dminus = 0 then NaN else Num (dminus / (dplus + dminus))) \<and>
            (dplus + dminus \<noteq> 0 \<longrightarrow>
               0 \<le> dminus / (dplus + dminus) \<and> dminus / (dplus + dminus) \<le> 1))"
    unfolding Let_def dp dm
    using wm len s1 di sc bound by simp
  then show ?thesis
    unfolding scored_by_closeness_def by blast
qed

subsection \<open>Ranking\<close>





subsection \<open>Small concrete facts\<close>

lemma upt_2: "[0..<2] = [0, Suc 0]"
  by (simp add: numeral_2_eq_2)

lemma sqrt_25: "sqrt 25 = 5"
  by (rule real_sqrt_unique) simp_all

lemma matrix_2_1:
  assumes "shape m (Suc (Suc 0)) (Suc 0)"
  shows "m = [[m ! 0 ! 0], [m ! Suc 0 ! 0]]"
proof -
  have l: "length m = Suc (Suc 0)" "length (m ! 0) = Suc 0" "length (m ! Suc 0) = Suc 0"
    using assms by (simp_all add: shape_def)
  have r0: "m ! 0 = [m ! 0 ! 0]" using l(2) by (cases "m ! 0") simp_all
  have r1: "m ! Suc 0 = [m ! Suc 0 ! 0]" using l(3) by (cases "m ! Suc 0") simp_all
  have "m = [m ! 0, m ! Suc 0]"
    using l(1) by (intro nth_equalityI) (auto simp: less_Suc_eq)
  with r0 r1 show ?thesis by simp
qed

lemma matrix_1_1:
  assumes "shape m (Suc 0) (Suc 0)"
  shows "m = [[m ! 0 ! 0]]"
proof -
  have l: "length m = Suc 0" "length (m ! 0) = Suc 0"
    using assms by (simp_all add: shape_def)
  have r0: "m ! 0 = [m ! 0 ! 0]" using l(2) by (cases "m ! 0") simp_all
  have "m = [m ! 0]"
    using l(1) by (intro nth_equalityI) auto
  with r0 show ?thesis by simp
qed

lemma catalog_allCriteria_vie:
  "catalog_entry allCriteria Key_vie =
     Some \<lparr>key = Key_vie, label = ''Duree de vie (annees)'', isBenefit = True\<rparr>"
  by (simp add: catalog_entry_def allCriteria_def)

subsection \<open>Position in the ranking\<close>

lemma trail_result_name [simp]:
  "TopsisResult.name (trail_result inp p) = Material.name (selectedMaterialsData inp ! p)"
  by (simp add: trail_result_def)



subsection \<open>Weighted values in terms of the raw cells\<close>











lemma run_sorted_run:
  assumes "selectedMaterialsData inp \<noteq> []" "selectedCriteriaKeys inp \<noteq> []"
  shows "runTopsisCalculation inp = Inr (sorted_run inp)"
  by (simp add: run_nonempty [OF assms] sorted_run_def)

subsection \<open>Raising one cell\<close>





subsection \<open>The two scenarios of the specification\<close>

lemma two_materials_matrices:
  assumes mats: "selectedMaterialsData inp = [m1, m2]"
    and keys: "selectedCriteriaKeys inp = [k]"
    and v1: "cell_value (costs inp) m1 k = 3"
    and v2: "cell_value (costs inp) m2 k = 4"
    and w: "weights inp k = Some 1"
  shows "trail_im inp = [[3], [4]]"
    and "value_nm inp = [[3 / 5], [4 / 5]]"
    and "value_wm inp = [[3 / 5], [4 / 5]]"
    and "trail_nm inp = [[Num (3 / 5)], [Num (4 / 5)]]"
    and "trail_wm inp = [[Num (3 / 5)], [Num (4 / 5)]]"
proof -
  show im: "trail_im inp = [[3], [4]]"
    by (simp add: trail_im_def build_initialMatrix_def mats keys v1 v2)
  have sumsq: "col_sumsq [[3], [4]] (Suc (Suc 0)) 0 = 25"
    by (simp add: col_sumsq_def)
  have range: "\<not> overflow_threshold \<le> 25"
    by (rule in_range) simp
  have norm: "col_norm [[3], [4]] (Suc (Suc 0)) 0 = 5"
    by (simp add: col_norm_def sumsq sqrt_25)
  show nm: "value_nm inp = [[3 / 5], [4 / 5]]"
  proof -
    have "shape (value_nm inp) (Suc (Suc 0)) (Suc 0)"
      using shape_value_nm [of inp] by (simp add: mats keys)
    from matrix_2_1 [OF this] show ?thesis
      by (simp add: value_nm_cell mats keys normalized_cell_def im norm sumsq range)
  qed
  show wm: "value_wm inp = [[3 / 5], [4 / 5]]"
  proof -
    have "shape (value_wm inp) (Suc (Suc 0)) (Suc 0)"
      using shape_value_wm [of inp] by (simp add: mats keys)
    from matrix_2_1 [OF this] show ?thesis
      by (simp add: value_wm_cell mats keys nm w or_zero_def)
  qed
  show "trail_nm inp = [[Num (3 / 5)], [Num (4 / 5)]]"
    by (simp add: trail_nm_eq nm)
  show "trail_wm inp = [[Num (3 / 5)], [Num (4 / 5)]]"
    by (simp add: trail_wm_eq wm)
qed

text \<open>The column as a benefit-type column.\<close>

lemma two_materials_benefit:
  assumes mats: "selectedMaterialsData inp = [m1, m2]"
    and keys: "selectedCriteriaKeys inp = [k]"
    and v1: "cell_value (costs inp) m1 k = 3"
    and v2: "cell_value (costs inp) m2 k = 4"
    and w: "weights inp k = Some 1"
    and flag: "benefit_flag (catalog_entry (allCriteriaDefinition inp) k)"
  shows "trail_sols inp = ([Num (4 / 5)], [Num (3 / 5)])"
    and "trail_scores inp = [Num 0, Num 1]"
    and "sorted_run inp = [trail_result inp (Suc 0), trail_result inp 0]"
proof -
  note wm = two_materials_matrices(3) [OF mats keys v1 v2 w]
  have ne: "selectedMaterialsData inp \<noteq> []" by (simp add: mats)
  have ideal: "trail_ideal inp 0 = 4 / 5" and anti: "trail_anti inp 0 = 3 / 5"
    by (simp_all add: trail_ideal_def trail_anti_def ideal_value_def anti_value_def keys flag
        build_criteriaMap_catalog column_values_def wm)
  show "trail_sols inp = ([Num (4 / 5)], [Num (3 / 5)])"
    using trail_sols_map [OF ne] by (simp add: keys ideal anti prod_eq_iff)
  have dp: "trail_dplus inp 0 = 1 / 5" "trail_dplus inp (Suc 0) = 0"
    by (simp_all add: trail_dplus_def row_distance_def keys wm ideal)
  have dm: "trail_dminus inp 0 = 0" "trail_dminus inp (Suc 0) = 1 / 5"
    by (simp_all add: trail_dminus_def row_distance_def keys wm anti)
  show scores: "trail_scores inp = [Num 0, Num 1]"
    by (simp add: trail_scores_eq [OF ne] mats upt_2 score_value_def dp dm)
  have s: "score (trail_result inp 0) = Num 0" "score (trail_result inp (Suc 0)) = Num 1"
    by (simp_all add: trail_result_def scores)
  show "sorted_run inp = [trail_result inp (Suc 0), trail_result inp 0]"
    by (simp add: sorted_run_def mats upt_2 array_sort_def compare_results_def s)
qed

text \<open>The same column as a cost-type column: the ideal is the minimum.\<close>

lemma two_materials_cost:
  assumes mats: "selectedMaterialsData inp = [m1, m2]"
    and keys: "selectedCriteriaKeys inp = [k]"
    and v1: "cell_value (costs inp) m1 k = 3"
    and v2: "cell_value (costs inp) m2 k = 4"
    and w: "weights inp k = Some 1"
    and flag: "\<not> benefit_flag (catalog_entry (allCriteriaDefinition inp) k)"
  shows "trail_sols inp = ([Num (3 / 5)], [Num (4 / 5)])"
    and "trail_scores inp = [Num 1, Num 0]"
    and "sorted_run inp = [trail_result inp 0, trail_result inp (Suc 0)]"
proof -
  note wm = two_materials_matrices(3) [OF mats keys v1 v2 w]
  have ne: "selectedMaterialsData inp \<noteq> []" by (simp add: mats)
  have ideal: "trail_ideal inp 0 = 3 / 5" and anti: "trail_anti inp 0 = 4 / 5"
    using flag
    by (simp_all add: trail_ideal_def trail_anti_def ideal_value_def anti_value_def keys
        build_criteriaMap_catalog column_values_def wm)
  show "trail_sols inp = ([Num (3 / 5)], [Num (4 / 5)])"
    using trail_sols_map [OF ne] by (simp add: keys ideal anti prod_eq_iff)
  have dp: "trail_dplus inp 0 = 0" "trail_dplus inp (Suc 0) = 1 / 5"
    by (simp_all add: trail_dplus_def row_distance_def keys wm ideal)
  have dm: "trail_dminus inp 0 = 1 / 5" "trail_dminus inp (Suc 0) = 0"
    by (simp_all add: trail_dminus_def row_distance_def keys wm anti)
  show scores: "trail_scores inp = [Num 1, Num 0]"
    by (simp add: trail_scores_eq [OF ne] mats upt_2 score_value_def dp dm)
  have s: "score (trail_result inp 0) = Num 1" "score (trail_result inp (Suc 0)) = Num 0"
    by (simp_all add: trail_result_def scores)
  show "sorted_run inp = [trail_result inp 0, trail_result inp (Suc 0)]"
    by (simp add: sorted_run_def mats upt_2 array_sort_def compare_results_def s)
qed

text \<open>
  Scenario A of the specification: one material, one benefit-type criterion of weight 1,
  raw value 5. The normalized and the weighted value are 1, the ideal and the anti-ideal
  are 1, both distances are 0 and the score is \<^verbatim>\<open>NaN\<close>.
\<close>

lemma single_material_trail:
  assumes mats: "selectedMaterialsData inp = [m]"
    and keys: "selectedCriteriaKeys inp = [k]"
    and v: "cell_value (costs inp) m k = 5"
    and w: "weights inp k = Some 1"
    and flag: "benefit_flag (catalog_entry (allCriteriaDefinition inp) k)"
  shows "value_nm inp = [[1]]"
    and "value_wm inp = [[1]]"
    and "trail_sols inp = ([Num 1], [Num 1])"
    and "trail_dists inp = ([Num 0], [Num 0])"
    and "trail_scores inp = [NaN]"
    and "sorted_run inp = [trail_result inp 0]"
proof -
  have ne: "selectedMaterialsData inp \<noteq> []" "selectedCriteriaKeys inp \<noteq> []"
    by (simp_all add: mats keys)
  have im: "trail_im inp = [[5]]"
    by (simp add: trail_im_def build_initialMatrix_def mats keys v)
  have sumsq: "col_sumsq [[5]] (Suc 0) 0 = 25"
    by (simp add: col_sumsq_def)
  have range: "\<not> overflow_threshold \<le> 25"
    by (rule in_range) simp
  have norm: "col_norm [[5]] (Suc 0) 0 = 5"
    by (simp add: col_norm_def sumsq sqrt_25)
  show nm: "value_nm inp = [[1]]"
  proof -
    have "shape (value_nm inp) (Suc 0) (Suc 0)"
      using shape_value_nm [of inp] by (simp add: mats keys)
    from matrix_1_1 [OF this] show ?thesis
      by (simp add: value_nm_cell mats keys normalized_cell_def im norm sumsq range)
  qed
  show wm: "value_wm inp = [[1]]"
  proof -
    have "shape (value_wm inp) (Suc 0) (Suc 0)"
      using shape_value_wm [of inp] by (simp add: mats keys)
    from matrix_1_1 [OF this] show ?thesis
      by (simp add: value_wm_cell mats keys nm w or_zero_def)
  qed
  have ideal: "trail_ideal inp 0 = 1" and anti: "trail_anti inp 0 = 1"
    by (simp_all add: trail_ideal_def trail_anti_def ideal_value_def anti_value_def keys flag
        build_criteriaMap_catalog column_values_def wm)
  show "trail_sols inp = ([Num 1], [Num 1])"
    using trail_sols_map [OF ne(1)] by (simp add: keys ideal anti prod_eq_iff)
  have dp: "trail_dplus inp 0 = 0" and dm: "trail_dminus inp 0 = 0"
    by (simp_all add: trail_dplus_def trail_dminus_def row_distance_def keys wm ideal anti)
  show "trail_dists inp = ([Num 0], [Num 0])"
    by (simp add: trail_dists_eq [OF ne(1)] mats dp dm)
  show "trail_scores inp = [NaN]"
    by (simp add: trail_scores_eq [OF ne(1)] mats score_value_def dp dm)
  show "sorted_run inp = [trail_result inp 0]"
    by (simp add: sorted_run_def mats array_sort_def)
qed

lemma scenarioB_facts:
  "selectedMaterialsData scenarioB_input =
     [scenario_material ''Material 1'' 3, scenario_material ''Material 2'' 4]"
  "selectedCriteriaKeys scenarioB_input = [Key_vie]"
  "cell_value (costs scenarioB_input) (scenario_material ''Material 1'' 3) Key_vie = 3"
  "cell_value (costs scenarioB_input) (scenario_material ''Material 2'' 4) Key_vie = 4"
  "weights scenarioB_input Key_vie = Some 1"
  "benefit_flag (catalog_entry (allCriteriaDefinition scenarioB_input) Key_vie)"
  by (simp_all add: scenarioB_input_def scenario_material_def catalog_allCriteria_vie
      benefit_flag_def)

lemma scenarioB_run:
  "map_sum id (map TopsisResult.name) (runTopsisCalculation scenarioB_input) =
     Inr [''Material 2'', ''Material 1'']"
  "map_sum id (map score) (runTopsisCalculation scenarioB_input) = Inr [Num 1, Num 0]"
  "map_sum id (map idealSolution) (runTopsisCalculation scenarioB_input) =
     Inr [[Num (4 / 5)], [Num (4 / 5)]]"
  "map_sum id (map antiIdealSolution) (runTopsisCalculation scenarioB_input) =
     Inr [[Num (3 / 5)], [Num (3 / 5)]]"
  "map_sum id (map weightedMatrix) (runTopsisCalculation scenarioB_input) =
     Inr [[[Num (3 / 5)], [Num (4 / 5)]], [[Num (3 / 5)], [Num (4 / 5)]]]"
  "map_sum id (map normalizedMatrix) (runTopsisCalculation scenarioB_input) =
     Inr [[[Num (3 / 5)], [Num (4 / 5)]], [[Num (3 / 5)], [Num (4 / 5)]]]"
  "map_sum id (map initialMatrix) (runTopsisCalculation scenarioB_input) =
     Inr [[[3], [4]], [[3], [4]]]"
proof -
  note f = scenarioB_facts
  note m = two_materials_matrices [OF f(1-5)]
  note t = two_materials_benefit [OF f]
  have run: "runTopsisCalculation scenarioB_input = Inr (sorted_run scenarioB_input)"
    by (rule run_sorted_run) (simp_all add: f)
  show "map_sum id (map TopsisResult.name) (runTopsisCalculation scenarioB_input) =
     Inr [''Material 2'', ''Material 1'']"
    by (simp add: run t(3) f(1) scenario_material_def)
  show "map_sum id (map score) (runTopsisCalculation scenarioB_input) = Inr [Num 1, Num 0]"
    by (simp add: run t(3) trail_result_def t(2))
  show "map_sum id (map idealSolution) (runTopsisCalculation scenarioB_input) =
     Inr [[Num (4 / 5)], [Num (4 / 5)]]"
    by (simp add: run t(3) trail_result_def t(1))
  show "map_sum id (map antiIdealSolution) (runTopsisCalculation scenarioB_input) =
     Inr [[Num (3 / 5)], [Num (3 / 5)]]"
    by (simp add: run t(3) trail_result_def t(1))
  show "map_sum id (map weightedMatrix) (runTopsisCalculation scenarioB_input) =
     Inr [[[Num (3 / 5)], [Num (4 / 5)]], [[Num (3 / 5)], [Num (4 / 5)]]]"
    by (simp add: run t(3) trail_result_def m(5))
  show "map_sum id (map normalizedMatrix) (runTopsisCalculation scenarioB_input) =
     Inr [[[Num (3 / 5)], [Num (4 / 5)]], [[Num (3 / 5)], [Num (4 / 5)]]]"
    by (simp add: run t(3) trail_result_def m(4))
  show "map_sum id (map initialMatrix) (runTopsisCalculation scenarioB_input) =
     Inr [[[3], [4]], [[3], [4]]]"
    by (simp add: run t(3) trail_result_def m(1))
qed

lemma scenarioA_run:
  "map_sum id (map score) (runTopsisCalculation scenarioA_input) = Inr [NaN]"
proof -
  have hyps: "selectedMaterialsData scenarioA_input = [scenario_material ''Material 1'' 5]"
    "selectedCriteriaKeys scenarioA_input = [Key_vie]"
    "cell_value (costs scenarioA_input) (scenario_material ''Material 1'' 5) Key_vie = 5"
    "weights scenarioA_input Key_vie = Some 1"
    "benefit_flag (catalog_entry (allCriteriaDefinition scenarioA_input) Key_vie)"
    by (simp_all add: scenarioA_input_def scenario_material_def catalog_allCriteria_vie
        benefit_flag_def)
  note t = single_material_trail [OF hyps]
  have run: "runTopsisCalculation scenarioA_input = Inr (sorted_run scenarioA_input)"
    by (rule run_sorted_run) (simp_all add: hyps)
  show ?thesis
    by (simp add: run t(6) trail_result_def t(5))
qed

text \<open>
  The input of scenario B with the criterion declared again as a cost-type criterion, and
  with no catalog at all: in both runs the ideal is the minimum 3/5 of the column, the
  anti-ideal its maximum 4/5, and the first material is ranked first.
\<close>

lemma redeclared_facts:
  "selectedMaterialsData redeclared_input =
     [scenario_material ''Material 1'' 3, scenario_material ''Material 2'' 4]"
  "selectedCriteriaKeys redeclared_input = [Key_vie]"
  "cell_value (costs redeclared_input) (scenario_material ''Material 1'' 3) Key_vie = 3"
  "cell_value (costs redeclared_input) (scenario_material ''Material 2'' 4) Key_vie = 4"
  "weights redeclared_input Key_vie = Some 1"
  "\<not> benefit_flag (catalog_entry (allCriteriaDefinition redeclared_input) Key_vie)"
  by (simp_all add: redeclared_input_def scenarioB_input_def scenario_material_def
      catalog_entry_def benefit_flag_def)

lemma no_catalog_facts:
  "selectedMaterialsData no_catalog_input =
     [scenario_material ''Material 1'' 3, scenario_material ''Material 2'' 4]"
  "selectedCriteriaKeys no_catalog_input = [Key_vie]"
  "cell_value (costs no_catalog_input) (scenario_material ''Material 1'' 3) Key_vie = 3"
  "cell_value (costs no_catalog_input) (scenario_material ''Material 2'' 4) Key_vie = 4"
  "weights no_catalog_input Key_vie = Some 1"
  "\<not> benefit_flag (catalog_entry (allCriteriaDefinition no_catalog_input) Key_vie)"
  by (simp_all add: no_catalog_input_def scenarioB_input_def scenario_material_def
      catalog_entry_def benefit_flag_def)

lemma cost_type_run:
  assumes mats: "selectedMaterialsData inp =
                   [scenario_material ''Material 1'' 3, scenario_material ''Material 2'' 4]"
    and keys: "selectedCriteriaKeys inp = [Key_vie]"
    and v1: "cell_value (costs inp) (scenario_material ''Material 1'' 3) Key_vie = 3"
    and v2: "cell_value (costs inp) (scenario_material ''Material 2'' 4) Key_vie = 4"
    and w: "weights inp Key_vie = Some 1"
    and flag: "\<not> benefit_flag (catalog_entry (allCriteriaDefinition inp) Key_vie)"
  shows "map_sum id (map TopsisResult.name) (runTopsisCalculation inp) =
           Inr [''Material 1'', ''Material 2'']"
    and "map_sum id (map score) (runTopsisCalculation inp) = Inr [Num 1, Num 0]"
    and "map_sum id (map idealSolution) (runTopsisCalculation inp) =
           Inr [[Num (3 / 5)], [Num (3 / 5)]]"
    and "map_sum id (map antiIdealSolution) (runTopsisCalculation inp) =
           Inr [[Num (4 / 5)], [Num (4 / 5)]]"
    and "map_sum id (map weightedMatrix) (runTopsisCalculation inp) =
           Inr [[[Num (3 / 5)], [Num (4 / 5)]], [[Num (3 / 5)], [Num (4 / 5)]]]"
proof -
  note m = two_materials_matrices [OF mats keys v1 v2 w]
  note t = two_materials_cost [OF assms]
  have run: "runTopsisCalculation inp = Inr (sorted_run inp)"
    by (rule run_sorted_run) (simp_all add: mats keys)
  show "map_sum id (map TopsisResult.name) (runTopsisCalculation inp) =
           Inr [''Material 1'', ''Material 2'']"
    by (simp add: run t(3) mats scenario_material_def)
  show "map_sum id (map score) (runTopsisCalculation inp) = Inr [Num 1, Num 0]"
    by (simp add: run t(3) trail_result_def t(2))
  show "map_sum id (map idealSolution) (runTopsisCalculation inp) =
           Inr [[Num (3 / 5)], [Num (3 / 5)]]"
    by (simp add: run t(3) trail_result_def t(1))
  show "map_sum id (map antiIdealSolution) (runTopsisCalculation inp) =
           Inr [[Num (4 / 5)], [Num (4 / 5)]]"
    by (simp add: run t(3) trail_result_def t(1))
  show "map_sum id (map weightedMatrix) (runTopsisCalculation inp) =
           Inr [[[Num (3 / 5)], [Num (4 / 5)]], [[Num (3 / 5)], [Num (4 / 5)]]]"
    by (simp add: run t(3) trail_result_def m(5))
qed


subsection \<open>A column of zeros and a column that overflows\<close>







lemma run_matrices:
  assumes "selectedMaterialsData inp \<noteq> []" "selectedCriteriaKeys inp \<noteq> []"
  shows "map_sum id (map initialMatrix) (runTopsisCalculation inp) =
           Inr (replicate (length (selectedMaterialsData inp)) (trail_im inp))"
    and "map_sum id (map normalizedMatrix) (runTopsisCalculation inp) =
           Inr (replicate (length (selectedMaterialsData inp)) (trail_nm inp))"
proof -
  obtain rs where rs: "runTopsisCalculation inp = Inr rs"
    "set rs = trail_result inp ` {0..<length (selectedMaterialsData inp)}"
    using run_set [OF assms] by blast
  have "rs = array_sort compare_results
               (map (trail_result inp) [0..<length (selectedMaterialsData inp)])"
    using rs(1) by (simp add: run_nonempty [OF assms])
  then have len: "length rs = length (selectedMaterialsData inp)"
    by (simp add: length_array_sort)
  have "\<forall>r \<in> set rs. initialMatrix r = trail_im inp \<and> normalizedMatrix r = trail_nm inp"
    using rs(2) by (auto simp: trail_result_def)
  then have "map initialMatrix rs = replicate (length rs) (trail_im inp)"
    "map normalizedMatrix rs = replicate (length rs) (trail_nm inp)"
    by (simp_all add: map_replicate_const [symmetric] cong: map_cong)
  then show "map_sum id (map initialMatrix) (runTopsisCalculation inp) =
           Inr (replicate (length (selectedMaterialsData inp)) (trail_im inp))"
    and "map_sum id (map normalizedMatrix) (runTopsisCalculation inp) =
           Inr (replicate (length (selectedMaterialsData inp)) (trail_nm inp))"
    by (simp_all add: rs(1) len)
qed


subsection \<open>Reading a column of two finite numbers\<close>

lemma column_of_two:
  assumes "map (\<lambda>row. row ! 0) [[Num a], [Num b]] = map Num column"
  shows "column = [a, b]"
proof -
  from assms have "map Num column = [Num a, Num b]" by simp
  then show ?thesis by (auto simp: map_eq_Cons_conv)
qed

lemma all_of_two:
  assumes "map f rs = [a, a]" "r \<in> set rs"
  shows "f r = a"
  using assms by (auto simp: map_eq_Cons_conv)


subsection \<open>Two runs with three materials and two criteria\<close>







































subsection \<open>Rankings of short lists\<close>






subsection \<open>An inequality on normalised differences\<close>


subsection \<open>Raising one cell: the column of the raised cell\<close>










section \<open>Properties of the engine\<close>

text \<open>
  Claim C1. For a non-empty input the engine returns (no error is raised), and the result
  of every material carries the score \<open>D- / (D+ + D-)\<close>, where \<open>D+\<close> and \<open>D-\<close> are the
  Euclidean distances of the material's row of the weighted matrix to the ideal and the
  anti-ideal vector; this value lies between 0 and 1; and when \<open>D+ + D- = 0\<close> the score
  is \<^verbatim>\<open>NaN\<close>.
\<close>

theorem closeness_scores:
  assumes "selectedMaterialsData inp \<noteq> []" "selectedCriteriaKeys inp \<noteq> []"
  shows "\<exists>rs. runTopsisCalculation inp = Inr rs \<and>
           (\<forall>i < length (selectedMaterialsData inp).
              \<exists>r \<in> set rs. originalData r = selectedMaterialsData inp ! i \<and>
                scored_by_closeness (length (selectedCriteriaKeys inp)) r i) \<and>
           (\<forall>r \<in> set rs.
              \<exists>i < length (selectedMaterialsData inp).
                originalData r = selectedMaterialsData inp ! i \<and>
                scored_by_closeness (length (selectedCriteriaKeys inp)) r i)"
proof -
  let ?n = "length (selectedMaterialsData inp)"
  obtain rs where rs: "runTopsisCalculation inp = Inr rs" "rs \<noteq> []"
    "set rs = trail_result inp ` {0..<?n}"
    using run_set [OF assms] by blast
  have orig: "originalData (trail_result inp i) = selectedMaterialsData inp ! i" for i
    by (simp add: trail_result_def)
  have a: "\<forall>i < ?n. \<exists>r \<in> set rs. originalData r = selectedMaterialsData inp ! i \<and>
                scored_by_closeness (length (selectedCriteriaKeys inp)) r i"
    using rs(3) orig trail_result_scored [OF assms(1)] by auto
  have b: "\<forall>r \<in> set rs. \<exists>i < ?n. originalData r = selectedMaterialsData inp ! i \<and>
                scored_by_closeness (length (selectedCriteriaKeys inp)) r i"
    using rs(3) orig trail_result_scored [OF assms(1)] by auto
  from rs(1) a b show ?thesis by blast
qed

theorem closeness_scores_witness:
  "selectedMaterialsData scenarioB_input \<noteq> []
   \<and> selectedCriteriaKeys scenarioB_input \<noteq> []
   \<and> (\<exists>rs. runTopsisCalculation scenarioB_input = Inr rs \<and>
           (\<forall>i < length (selectedMaterialsData scenarioB_input).
              \<exists>r \<in> set rs. originalData r = selectedMaterialsData scenarioB_input ! i \<and>
                scored_by_closeness (length (selectedCriteriaKeys scenarioB_input)) r i) \<and>
           (\<forall>r \<in> set rs.
              \<exists>i < length (selectedMaterialsData scenarioB_input).
                originalData r = selectedMaterialsData scenarioB_input ! i \<and>
                scored_by_closeness (length (selectedCriteriaKeys scenarioB_input)) r i))
   \<and> selectedMaterialsData scenarioA_input \<noteq> []
   \<and> selectedCriteriaKeys scenarioA_input \<noteq> []
   \<and> (\<exists>rs. runTopsisCalculation scenarioA_input = Inr rs \<and>
           (\<forall>i < length (selectedMaterialsData scenarioA_input).
              \<exists>r \<in> set rs. originalData r = selectedMaterialsData scenarioA_input ! i \<and>
                scored_by_closeness (length (selectedCriteriaKeys scenarioA_input)) r i) \<and>
           (\<forall>r \<in> set rs.
              \<exists>i < length (selectedMaterialsData scenarioA_input).
                originalData r = selectedMaterialsData scenarioA_input ! i \<and>
                scored_by_closeness (length (selectedCriteriaKeys scenarioA_input)) r i))
   \<and> map_sum id (map score) (runTopsisCalculation scenarioB_input) = Inr [Num 1, Num 0]
   \<and> map_sum id (map score) (runTopsisCalculation scenarioA_input) = Inr [NaN]"
proof (intro conjI)
  show "selectedMaterialsData scenarioB_input \<noteq> []"
    by (simp add: scenarioB_input_def)
  show "selectedCriteriaKeys scenarioB_input \<noteq> []"
    by (simp add: scenarioB_input_def)
  show "\<exists>rs. runTopsisCalculation scenarioB_input = Inr rs \<and>
           (\<forall>i < length (selectedMaterialsData scenarioB_input).
              \<exists>r \<in> set rs. originalData r = selectedMaterialsData scenarioB_input ! i \<and>
                scored_by_closeness (length (selectedCriteriaKeys scenarioB_input)) r i) \<and>
           (\<forall>r \<in> set rs.
              \<exists>i < length (selectedMaterialsData scenarioB_input).
                originalData r = selectedMaterialsData scenarioB_input ! i \<and>
                scored_by_closeness (length (selectedCriteriaKeys scenarioB_input)) r i)"
    by (rule closeness_scores) (simp_all add: scenarioB_input_def)
  show "selectedMaterialsData scenarioA_input \<noteq> []"
    by (simp add: scenarioA_input_def)
  show "selectedCriteriaKeys scenarioA_input \<noteq> []"
    by (simp add: scenarioA_input_def)
  show "\<exists>rs. runTopsisCalculation scenarioA_input = Inr rs \<and>
           (\<forall>i < length (selectedMaterialsData scenarioA_input).
              \<exists>r \<in> set rs. originalData r = selectedMaterialsData scenarioA_input ! i \<and>
                scored_by_closeness (length (selectedCriteriaKeys scenarioA_input)) r i) \<and>
           (\<forall>r \<in> set rs.
              \<exists>i < length (selectedMaterialsData scenarioA_input).
                originalData r = selectedMaterialsData scenarioA_input ! i \<and>
                scored_by_closeness (length (selectedCriteriaKeys scenarioA_input)) r i)"
    by (rule closeness_scores) (simp_all add: scenarioA_input_def)
  show "map_sum id (map score) (runTopsisCalculation scenarioB_input) = Inr [Num 1, Num 0]"
    by (rule scenarioB_run)
  show "map_sum id (map score) (runTopsisCalculation scenarioA_input) = Inr [NaN]"
    by (rule scenarioA_run)
qed








text \<open>
  Claim C4. For a non-empty input and a selected key that the criteria catalog of the input
  holds (with several catalog entries of one key, the last of them counts): when the
  entry's \<open>isBenefit\<close> flag is true, the ideal entry of the column is the maximum of the
  column of the weighted matrix and the anti-ideal entry is its minimum; when the flag is
  false, the ideal entry is the minimum and the anti-ideal entry the maximum. The column
  of the weighted matrix holds finite numbers.
\<close>

theorem ideal_by_polarity:
  assumes "selectedMaterialsData inp \<noteq> []" "selectedCriteriaKeys inp \<noteq> []"
  shows "\<exists>rs. runTopsisCalculation inp = Inr rs \<and> rs \<noteq> [] \<and>
           (\<forall>r \<in> set rs. \<forall>j < length (selectedCriteriaKeys inp). \<forall>criterion.
              catalog_entry (allCriteriaDefinition inp) (selectedCriteriaKeys inp ! j) =
                Some criterion \<longrightarrow>
              (\<exists>column. map (\<lambda>row. row ! j) (weightedMatrix r) = map Num column \<and>
                 length column = length (selectedMaterialsData inp) \<and>
                 (isBenefit criterion \<longrightarrow>
                    idealSolution r ! j = Num (Max (set column)) \<and>
                    antiIdealSolution r ! j = Num (Min (set column))) \<and>
                 (\<not> isBenefit criterion \<longrightarrow>
                    idealSolution r ! j = Num (Min (set column)) \<and>
                    antiIdealSolution r ! j = Num (Max (set column)))))"
proof -
  let ?n = "length (selectedMaterialsData inp)"
  obtain rs where rs: "runTopsisCalculation inp = Inr rs" "rs \<noteq> []"
    "set rs = trail_result inp ` {0..<?n}"
    using run_set [OF assms] by blast
  have "\<forall>r \<in> set rs. \<forall>j < length (selectedCriteriaKeys inp). \<forall>criterion.
              catalog_entry (allCriteriaDefinition inp) (selectedCriteriaKeys inp ! j) =
                Some criterion \<longrightarrow>
              (\<exists>column. map (\<lambda>row. row ! j) (weightedMatrix r) = map Num column \<and>
                 length column = length (selectedMaterialsData inp) \<and>
                 (isBenefit criterion \<longrightarrow>
                    idealSolution r ! j = Num (Max (set column)) \<and>
                    antiIdealSolution r ! j = Num (Min (set column))) \<and>
                 (\<not> isBenefit criterion \<longrightarrow>
                    idealSolution r ! j = Num (Min (set column)) \<and>
                    antiIdealSolution r ! j = Num (Max (set column))))"
  proof (intro ballI allI impI)
    fix r j criterion
    assume "r \<in> set rs" and j: "j < length (selectedCriteriaKeys inp)"
      and look: "catalog_entry (allCriteriaDefinition inp) (selectedCriteriaKeys inp ! j) =
                   Some criterion"
    then obtain index where "r = trail_result inp index"
      using rs(3) by auto
    then have f: "weightedMatrix r = trail_wm inp" "idealSolution r = fst (trail_sols inp)"
      "antiIdealSolution r = snd (trail_sols inp)"
      by (simp_all add: trail_result_def)
    let ?column = "column_values (value_wm inp) j"
    have flag: "benefit_flag (catalog_entry (allCriteriaDefinition inp)
                  (selectedCriteriaKeys inp ! j)) = isBenefit criterion"
      by (simp add: look benefit_flag_def)
    have col: "map (\<lambda>row. row ! j) (trail_wm inp) = map Num ?column"
      by (rule trail_column [OF j])
    have len: "length ?column = ?n"
      using shape_value_wm [of inp] by (simp add: column_values_def shape_def)
    have "map (\<lambda>row. row ! j) (weightedMatrix r) = map Num ?column \<and>
          length ?column = length (selectedMaterialsData inp) \<and>
          (isBenefit criterion \<longrightarrow>
             idealSolution r ! j = Num (Max (set ?column)) \<and>
             antiIdealSolution r ! j = Num (Min (set ?column))) \<and>
          (\<not> isBenefit criterion \<longrightarrow>
             idealSolution r ! j = Num (Min (set ?column)) \<and>
             antiIdealSolution r ! j = Num (Max (set ?column)))"
      unfolding f
      using col len trail_sols_column [OF assms(1) j] flag by blast
    then show "\<exists>column. map (\<lambda>row. row ! j) (weightedMatrix r) = map Num column \<and>
                 length column = length (selectedMaterialsData inp) \<and>
                 (isBenefit criterion \<longrightarrow>
                    idealSolution r ! j = Num (Max (set column)) \<and>
                    antiIdealSolution r ! j = Num (Min (set column))) \<and>
                 (\<not> isBenefit criterion \<longrightarrow>
                    idealSolution r ! j = Num (Min (set column)) \<and>
                    antiIdealSolution r ! j = Num (Max (set column)))"
      by (rule exI)
  qed
  with rs(1,2) show ?thesis by blast
qed

theorem ideal_by_polarity_witness:
  "(\<exists>rs. runTopsisCalculation scenarioB_input = Inr rs \<and> rs \<noteq> [] \<and>
      (\<forall>r \<in> set rs. idealSolution r ! 0 = Num (4 / 5) \<and>
                       antiIdealSolution r ! 0 = Num (3 / 5)))
   \<and> catalog_entry (allCriteriaDefinition scenarioB_input) (selectedCriteriaKeys scenarioB_input ! 0) =
       Some \<lparr>key = Key_vie, label = ''Duree de vie (annees)'', isBenefit = True\<rparr>
   \<and> (\<exists>rs. runTopsisCalculation redeclared_input = Inr rs \<and> rs \<noteq> [] \<and>
      (\<forall>r \<in> set rs. idealSolution r ! 0 = Num (3 / 5) \<and>
                       antiIdealSolution r ! 0 = Num (4 / 5)))
   \<and> catalog_entry (allCriteriaDefinition redeclared_input) (selectedCriteriaKeys redeclared_input ! 0) =
       Some \<lparr>key = Key_vie, label = ''Duree de vie (annees)'', isBenefit = False\<rparr>
   \<and> map_sum id (map weightedMatrix) (runTopsisCalculation scenarioB_input) =
       Inr [[[Num (3 / 5)], [Num (4 / 5)]], [[Num (3 / 5)], [Num (4 / 5)]]]
   \<and> map_sum id (map weightedMatrix) (runTopsisCalculation redeclared_input) =
       Inr [[[Num (3 / 5)], [Num (4 / 5)]], [[Num (3 / 5)], [Num (4 / 5)]]]
   \<and> map_sum id (map TopsisResult.name) (runTopsisCalculation scenarioB_input) =
       Inr [''Material 2'', ''Material 1'']
   \<and> map_sum id (map TopsisResult.name) (runTopsisCalculation redeclared_input) =
       Inr [''Material 1'', ''Material 2'']"
proof (intro conjI)
  let ?ben = "\<lparr>key = Key_vie, label = ''Duree de vie (annees)'', isBenefit = True\<rparr>"
  let ?cost = "\<lparr>key = Key_vie, label = ''Duree de vie (annees)'', isBenefit = False\<rparr>"
  show entryB: "catalog_entry (allCriteriaDefinition scenarioB_input)
                  (selectedCriteriaKeys scenarioB_input ! 0) = Some ?ben"
    by (simp add: scenarioB_input_def catalog_allCriteria_vie)
  show entryR: "catalog_entry (allCriteriaDefinition redeclared_input)
                  (selectedCriteriaKeys redeclared_input ! 0) = Some ?cost"
    by (simp add: redeclared_input_def scenarioB_input_def catalog_entry_def)
  show wmB: "map_sum id (map weightedMatrix) (runTopsisCalculation scenarioB_input) =
       Inr [[[Num (3 / 5)], [Num (4 / 5)]], [[Num (3 / 5)], [Num (4 / 5)]]]"
    by (rule scenarioB_run)
  show wmR: "map_sum id (map weightedMatrix) (runTopsisCalculation redeclared_input) =
       Inr [[[Num (3 / 5)], [Num (4 / 5)]], [[Num (3 / 5)], [Num (4 / 5)]]]"
    by (rule cost_type_run [OF redeclared_facts])
  show "map_sum id (map TopsisResult.name) (runTopsisCalculation scenarioB_input) =
       Inr [''Material 2'', ''Material 1'']"
    by (rule scenarioB_run)
  show "map_sum id (map TopsisResult.name) (runTopsisCalculation redeclared_input) =
       Inr [''Material 1'', ''Material 2'']"
    by (rule cost_type_run [OF redeclared_facts])
  show "\<exists>rs. runTopsisCalculation scenarioB_input = Inr rs \<and> rs \<noteq> [] \<and>
      (\<forall>r \<in> set rs. idealSolution r ! 0 = Num (4 / 5) \<and>
                       antiIdealSolution r ! 0 = Num (3 / 5))"
  proof -
    have ne: "selectedMaterialsData scenarioB_input \<noteq> []"
      "selectedCriteriaKeys scenarioB_input \<noteq> []"
      by (simp_all add: scenarioB_input_def)
    have j0: "0 < length (selectedCriteriaKeys scenarioB_input)"
      by (simp add: scenarioB_input_def)
    from ideal_by_polarity [OF ne] obtain rs where
      all: "runTopsisCalculation scenarioB_input = Inr rs \<and> rs \<noteq> [] \<and>
           (\<forall>r \<in> set rs. \<forall>j < length (selectedCriteriaKeys scenarioB_input). \<forall>criterion.
              catalog_entry (allCriteriaDefinition scenarioB_input) (selectedCriteriaKeys scenarioB_input ! j) =
                Some criterion \<longrightarrow>
              (\<exists>column. map (\<lambda>row. row ! j) (weightedMatrix r) = map Num column \<and>
                 length column = length (selectedMaterialsData scenarioB_input) \<and>
                 (isBenefit criterion \<longrightarrow>
                    idealSolution r ! j = Num (Max (set column)) \<and>
                    antiIdealSolution r ! j = Num (Min (set column))) \<and>
                 (\<not> isBenefit criterion \<longrightarrow>
                    idealSolution r ! j = Num (Min (set column)) \<and>
                    antiIdealSolution r ! j = Num (Max (set column)))))" ..
    note run = all [THEN conjunct1]
    note pol = all [THEN conjunct2, THEN conjunct2, rule_format]
    have "idealSolution r ! 0 = Num (4 / 5) \<and> antiIdealSolution r ! 0 = Num (3 / 5)"
      if r: "r \<in> set rs" for r
    proof -
      have "map weightedMatrix rs = [[[Num (3 / 5)], [Num (4 / 5)]], [[Num (3 / 5)], [Num (4 / 5)]]]"
        using wmB by (simp add: run)
      from all_of_two [OF this r]
      have wm: "weightedMatrix r = [[Num (3 / 5)], [Num (4 / 5)]]" .
      from pol [OF r j0 entryB] obtain column where
        c: "map (\<lambda>row. row ! 0) (weightedMatrix r) = map Num column \<and>
            length column = length (selectedMaterialsData scenarioB_input) \<and>
            (isBenefit ?ben \<longrightarrow>
               idealSolution r ! 0 = Num (Max (set column)) \<and>
               antiIdealSolution r ! 0 = Num (Min (set column))) \<and>
            (\<not> isBenefit ?ben \<longrightarrow>
               idealSolution r ! 0 = Num (Min (set column)) \<and>
               antiIdealSolution r ! 0 = Num (Max (set column)))" ..
      from c have "map (\<lambda>row. row ! 0) [[Num (3 / 5)], [Num (4 / 5)]] = map Num column"
        by (simp only: wm)
      then have col: "column = [3 / 5, 4 / 5]"
        by (rule column_of_two)
      from c have "idealSolution r ! 0 = Num (Max (set column)) \<and>
                   antiIdealSolution r ! 0 = Num (Min (set column))"
        by simp
      then show ?thesis by (simp add: col)
    qed
    with all show ?thesis by blast
  qed
  show "\<exists>rs. runTopsisCalculation redeclared_input = Inr rs \<and> rs \<noteq> [] \<and>
      (\<forall>r \<in> set rs. idealSolution r ! 0 = Num (3 / 5) \<and>
                       antiIdealSolution r ! 0 = Num (4 / 5))"
  proof -
    have ne: "selectedMaterialsData redeclared_input \<noteq> []"
      "selectedCriteriaKeys redeclared_input \<noteq> []"
      by (simp_all add: redeclared_input_def scenarioB_input_def)
    have j0: "0 < length (selectedCriteriaKeys redeclared_input)"
      by (simp add: redeclared_input_def scenarioB_input_def)
    from ideal_by_polarity [OF ne] obtain rs where
      all: "runTopsisCalculation redeclared_input = Inr rs \<and> rs \<noteq> [] \<and>
           (\<forall>r \<in> set rs. \<forall>j < length (selectedCriteriaKeys redeclared_input). \<forall>criterion.
              catalog_entry (allCriteriaDefinition redeclared_input) (selectedCriteriaKeys redeclared_input ! j) =
                Some criterion \<longrightarrow>
              (\<exists>column. map (\<lambda>row. row ! j) (weightedMatrix r) = map Num column \<and>
                 length column = length (selectedMaterialsData redeclared_input) \<and>
                 (isBenefit criterion \<longrightarrow>
                    idealSolution r ! j = Num (Max (set column)) \<and>
                    antiIdealSolution r ! j = Num (Min (set column))) \<and>
                 (\<not> isBenefit criterion \<longrightarrow>
                    idealSolution r ! j = Num (Min (set column)) \<and>
                    antiIdealSolution r ! j = Num (Max (set column)))))" ..
    note run = all [THEN conjunct1]
    note pol = all [THEN conjunct2, THEN conjunct2, rule_format]
    have "idealSolution r ! 0 = Num (3 / 5) \<and> antiIdealSolution r ! 0 = Num (4 / 5)"
      if r: "r \<in> set rs" for r
    proof -
      have "map weightedMatrix rs = [[[Num (3 / 5)], [Num (4 / 5)]], [[Num (3 / 5)], [Num (4 / 5)]]]"
        using wmR by (simp add: run)
      from all_of_two [OF this r]
      have wm: "weightedMatrix r = [[Num (3 / 5)], [Num (4 / 5)]]" .
      from pol [OF r j0 entryR] obtain column where
        c: "map (\<lambda>row. row ! 0) (weightedMatrix r) = map Num column \<and>
            length column = length (selectedMaterialsData redeclared_input) \<and>
            (isBenefit ?cost \<longrightarrow>
               idealSolution r ! 0 = Num (Max (set column)) \<and>
               antiIdealSolution r ! 0 = Num (Min (set column))) \<and>
            (\<not> isBenefit ?cost \<longrightarrow>
               idealSolution r ! 0 = Num (Min (set column)) \<and>
               antiIdealSolution r ! 0 = Num (Max (set column)))" ..
      from c have "map (\<lambda>row. row ! 0) [[Num (3 / 5)], [Num (4 / 5)]] = map Num column"
        by (simp only: wm)
      then have col: "column = [3 / 5, 4 / 5]"
        by (rule column_of_two)
      from c have "idealSolution r ! 0 = Num (Min (set column)) \<and>
                   antiIdealSolution r ! 0 = Num (Max (set column))"
        by simp
      then show ?thesis by (simp add: col)
    qed
    with all show ?thesis by blast
  qed
qed






text \<open>
  Claim C6. When the list of selected materials is empty or the list of selected criterion
  keys is empty, the engine returns the empty result list and raises no error.
\<close>

theorem empty_selection_returns_empty:
  assumes "selectedMaterialsData inp = [] \<or> selectedCriteriaKeys inp = []"
  shows "runTopsisCalculation inp = Inr []"
  using assms by (auto simp: runTopsisCalculation_def)

theorem empty_selection_returns_empty_witness:
  "runTopsisCalculation
     \<lparr>selectedMaterialsData = [], selectedCriteriaKeys = [Key_vie, Key_cout],
      allCriteriaDefinition = allCriteria, costs = Map.empty, weights = Map.empty\<rparr> = Inr []
   \<and> runTopsisCalculation
     \<lparr>selectedMaterialsData =
        [\<lparr>Material.name = ''PVC'', type = ''EV'', pn = [6, 10, 16, 25], temp = 60,
          corrosion = 8, vie = 50, pose = 9, acoustique = 6, feu = 5, environnement = 5,
          surpression = 6\<rparr>],
      selectedCriteriaKeys = [],
      allCriteriaDefinition = allCriteria, costs = Map.empty, weights = Map.empty\<rparr> = Inr []"
proof
  show "runTopsisCalculation
     \<lparr>selectedMaterialsData = [], selectedCriteriaKeys = [Key_vie, Key_cout],
      allCriteriaDefinition = allCriteria, costs = Map.empty, weights = Map.empty\<rparr> = Inr []"
    by (rule empty_selection_returns_empty) simp
  show "runTopsisCalculation
     \<lparr>selectedMaterialsData =
        [\<lparr>Material.name = ''PVC'', type = ''EV'', pn = [6, 10, 16, 25], temp = 60,
          corrosion = 8, vie = 50, pose = 9, acoustique = 6, feu = 5, environnement = 5,
          surpression = 6\<rparr>],
      selectedCriteriaKeys = [],
      allCriteriaDefinition = allCriteria, costs = Map.empty, weights = Map.empty\<rparr> = Inr []"
    by (rule empty_selection_returns_empty) simp
qed

text \<open>
  Claim C7. For a non-empty input the result list has one entry per selected material: its
  length is the number of selected materials, the names (and the material records) of the
  results are those of the input up to order, so that, the names of the selected materials
  being distinct as the data model requires, each name appears exactly once.
\<close>

theorem one_result_per_material:
  assumes "selectedMaterialsData inp \<noteq> []" "selectedCriteriaKeys inp \<noteq> []"
  shows "\<exists>rs. runTopsisCalculation inp = Inr rs \<and>
           length rs = length (selectedMaterialsData inp) \<and>
           mset (map TopsisResult.name rs) = mset (map Material.name (selectedMaterialsData inp)) \<and>
           mset (map originalData rs) = mset (selectedMaterialsData inp) \<and>
           (distinct (map Material.name (selectedMaterialsData inp)) \<longrightarrow>
              (\<forall>material \<in> set (selectedMaterialsData inp).
                 length (filter (\<lambda>r. TopsisResult.name r = Material.name material) rs) = 1))"
proof -
  let ?mats = "selectedMaterialsData inp"
  let ?rs = "array_sort compare_results (map (trail_result inp) [0..<length ?mats])"
  have run: "runTopsisCalculation inp = Inr ?rs"
    by (rule run_nonempty [OF assms])
  have ms: "mset ?rs = mset (map (trail_result inp) [0..<length ?mats])"
    by (rule mset_array_sort)
  have len: "length ?rs = length ?mats"
    by (simp add: length_array_sort)
  have "map TopsisResult.name (map (trail_result inp) [0..<length ?mats]) =
        map Material.name ?mats"
    by (intro nth_equalityI) (simp_all add: trail_result_def)
  then have names: "mset (map TopsisResult.name ?rs) = mset (map Material.name ?mats)"
    using ms by (metis mset_map)
  have "map originalData (map (trail_result inp) [0..<length ?mats]) = ?mats"
    by (intro nth_equalityI) (simp_all add: trail_result_def)
  then have orig: "mset (map originalData ?rs) = mset ?mats"
    using ms by (metis mset_map)
  have once: "length (filter (\<lambda>r. TopsisResult.name r = Material.name material) ?rs) = 1"
    if d: "distinct (map Material.name ?mats)" and m: "material \<in> set ?mats" for material
  proof -
    have "length (filter (\<lambda>r. TopsisResult.name r = Material.name material) ?rs) =
          count (mset (map TopsisResult.name ?rs)) (Material.name material)"
      by (rule length_filter_count)
    also have "\<dots> = count (mset (map Material.name ?mats)) (Material.name material)"
      by (simp only: names)
    also have "\<dots> = 1"
      using d m by (simp add: distinct_count_atmost_1)
    finally show ?thesis .
  qed
  show ?thesis
    using run len names orig once by blast
qed

theorem one_result_per_material_witness:
  "selectedMaterialsData example_input \<noteq> []
   \<and> selectedCriteriaKeys example_input \<noteq> []
   \<and> (\<exists>rs. runTopsisCalculation example_input = Inr rs \<and>
           length rs = length (selectedMaterialsData example_input) \<and>
           mset (map TopsisResult.name rs) = mset (map Material.name (selectedMaterialsData example_input)) \<and>
           mset (map originalData rs) = mset (selectedMaterialsData example_input) \<and>
           (distinct (map Material.name (selectedMaterialsData example_input)) \<longrightarrow>
              (\<forall>material \<in> set (selectedMaterialsData example_input).
                 length (filter (\<lambda>r. TopsisResult.name r = Material.name material) rs) = 1)))
   \<and> selectedMaterialsData scenarioB_input \<noteq> []
   \<and> selectedCriteriaKeys scenarioB_input \<noteq> []
   \<and> (\<exists>rs. runTopsisCalculation scenarioB_input = Inr rs \<and>
           length rs = length (selectedMaterialsData scenarioB_input) \<and>
           mset (map TopsisResult.name rs) = mset (map Material.name (selectedMaterialsData scenarioB_input)) \<and>
           mset (map originalData rs) = mset (selectedMaterialsData scenarioB_input) \<and>
           (distinct (map Material.name (selectedMaterialsData scenarioB_input)) \<longrightarrow>
              (\<forall>material \<in> set (selectedMaterialsData scenarioB_input).
                 length (filter (\<lambda>r. TopsisResult.name r = Material.name material) rs) = 1)))
   \<and> distinct (map Material.name (selectedMaterialsData example_input))
   \<and> map_sum id (map TopsisResult.name) (runTopsisCalculation scenarioB_input) =
     Inr [''Material 2'', ''Material 1'']"
proof (intro conjI)
  show "selectedMaterialsData example_input \<noteq> []"
    by (simp add: example_input_def)
  show "selectedCriteriaKeys example_input \<noteq> []"
    by (simp add: example_input_def)
  show "\<exists>rs. runTopsisCalculation example_input = Inr rs \<and>
           length rs = length (selectedMaterialsData example_input) \<and>
           mset (map TopsisResult.name rs) = mset (map Material.name (selectedMaterialsData example_input)) \<and>
           mset (map originalData rs) = mset (selectedMaterialsData example_input) \<and>
           (distinct (map Material.name (selectedMaterialsData example_input)) \<longrightarrow>
              (\<forall>material \<in> set (selectedMaterialsData example_input).
                 length (filter (\<lambda>r. TopsisResult.name r = Material.name material) rs) = 1))"
    by (rule one_result_per_material) (simp_all add: example_input_def)
  show "selectedMaterialsData scenarioB_input \<noteq> []"
    by (simp add: scenarioB_input_def)
  show "selectedCriteriaKeys scenarioB_input \<noteq> []"
    by (simp add: scenarioB_input_def)
  show "\<exists>rs. runTopsisCalculation scenarioB_input = Inr rs \<and>
           length rs = length (selectedMaterialsData scenarioB_input) \<and>
           mset (map TopsisResult.name rs) = mset (map Material.name (selectedMaterialsData scenarioB_input)) \<and>
           mset (map originalData rs) = mset (selectedMaterialsData scenarioB_input) \<and>
           (distinct (map Material.name (selectedMaterialsData scenarioB_input)) \<longrightarrow>
              (\<forall>material \<in> set (selectedMaterialsData scenarioB_input).
                 length (filter (\<lambda>r. TopsisResult.name r = Material.name material) rs) = 1))"
    by (rule one_result_per_material) (simp_all add: scenarioB_input_def)
  show "distinct (map Material.name (selectedMaterialsData example_input))"
    by (simp add: example_input_def)
  show "map_sum id (map TopsisResult.name) (runTopsisCalculation scenarioB_input) =
     Inr [''Material 2'', ''Material 1'']"
    by (rule scenarioB_run)
qed


text \<open>
  Claim C8. For a non-empty input, the cell of the initial matrix for the key
  \<^verbatim>\<open>'cout'\<close> is the value of the cost map at the material's name, a missing entry
  counting as 0, and every other cell is the material's attribute for the key; the cell of
  the weighted matrix is the normalized cell, a finite number, times the weight of the
  column's key, a missing weight counting as 0.
\<close>

theorem matrix_cells:
  assumes "selectedMaterialsData inp \<noteq> []" "selectedCriteriaKeys inp \<noteq> []"
  shows "\<exists>rs. runTopsisCalculation inp = Inr rs \<and> rs \<noteq> [] \<and>
           (\<forall>r \<in> set rs.
              \<forall>i < length (selectedMaterialsData inp). \<forall>j < length (selectedCriteriaKeys inp).
                initialMatrix r ! i ! j =
                  (let material = selectedMaterialsData inp ! i
                   in case selectedCriteriaKeys inp ! j of
                        Key_cout \<Rightarrow>
                          (case costs inp (Material.name material) of
                             None \<Rightarrow> 0 | Some v \<Rightarrow> v)
                      | Key_temp \<Rightarrow> temp material
                      | Key_corrosion \<Rightarrow> corrosion material
                      | Key_vie \<Rightarrow> vie material
                      | Key_pose \<Rightarrow> pose material
                      | Key_acoustique \<Rightarrow> acoustique material
                      | Key_feu \<Rightarrow> feu material
                      | Key_environnement \<Rightarrow> environnement material
                      | Key_surpression \<Rightarrow> surpression material) \<and>
                (\<exists>v. normalizedMatrix r ! i ! j = Num v \<and>
                   weightedMatrix r ! i ! j =
                     Num (v * (case weights inp (selectedCriteriaKeys inp ! j) of
                                 None \<Rightarrow> 0 | Some w \<Rightarrow> w))))"
proof -
  let ?n = "length (selectedMaterialsData inp)"
  obtain rs where rs: "runTopsisCalculation inp = Inr rs" "rs \<noteq> []"
    "set rs = trail_result inp ` {0..<?n}"
    using run_set [OF assms] by blast
  have im: "trail_im inp ! i ! j =
              (let material = selectedMaterialsData inp ! i
                   in case selectedCriteriaKeys inp ! j of
                        Key_cout \<Rightarrow>
                          (case costs inp (Material.name material) of
                             None \<Rightarrow> 0 | Some v \<Rightarrow> v)
                      | Key_temp \<Rightarrow> temp material
                      | Key_corrosion \<Rightarrow> corrosion material
                      | Key_vie \<Rightarrow> vie material
                      | Key_pose \<Rightarrow> pose material
                      | Key_acoustique \<Rightarrow> acoustique material
                      | Key_feu \<Rightarrow> feu material
                      | Key_environnement \<Rightarrow> environnement material
                      | Key_surpression \<Rightarrow> surpression material)"
    if "i < ?n" "j < length (selectedCriteriaKeys inp)" for i j
    using that
    by (cases "selectedCriteriaKeys inp ! j") (simp_all add: trail_im_cell or_zero_default)
  have wm: "\<exists>v. trail_nm inp ! i ! j = Num v \<and>
              trail_wm inp ! i ! j =
                Num (v * (case weights inp (selectedCriteriaKeys inp ! j) of
                            None \<Rightarrow> 0 | Some w \<Rightarrow> w))"
    if "i < ?n" "j < length (selectedCriteriaKeys inp)" for i j
    using that by (simp add: trail_nm_cell trail_wm_cell value_wm_cell or_zero_default)
  have "\<forall>r \<in> set rs.
              \<forall>i < length (selectedMaterialsData inp). \<forall>j < length (selectedCriteriaKeys inp).
                initialMatrix r ! i ! j =
                  (let material = selectedMaterialsData inp ! i
                   in case selectedCriteriaKeys inp ! j of
                        Key_cout \<Rightarrow>
                          (case costs inp (Material.name material) of
                             None \<Rightarrow> 0 | Some v \<Rightarrow> v)
                      | Key_temp \<Rightarrow> temp material
                      | Key_corrosion \<Rightarrow> corrosion material
                      | Key_vie \<Rightarrow> vie material
                      | Key_pose \<Rightarrow> pose material
                      | Key_acoustique \<Rightarrow> acoustique material
                      | Key_feu \<Rightarrow> feu material
                      | Key_environnement \<Rightarrow> environnement material
                      | Key_surpression \<Rightarrow> surpression material) \<and>
                (\<exists>v. normalizedMatrix r ! i ! j = Num v \<and>
                   weightedMatrix r ! i ! j =
                     Num (v * (case weights inp (selectedCriteriaKeys inp ! j) of
                                 None \<Rightarrow> 0 | Some w \<Rightarrow> w)))"
  proof (intro ballI allI impI)
    fix r i j
    assume "r \<in> set rs" and ij: "i < ?n" "j < length (selectedCriteriaKeys inp)"
    then obtain index where "r = trail_result inp index"
      using rs(3) by auto
    then have f: "initialMatrix r = trail_im inp" "normalizedMatrix r = trail_nm inp"
      "weightedMatrix r = trail_wm inp"
      by (simp_all add: trail_result_def)
    show "initialMatrix r ! i ! j =
                  (let material = selectedMaterialsData inp ! i
                   in case selectedCriteriaKeys inp ! j of
                        Key_cout \<Rightarrow>
                          (case costs inp (Material.name material) of
                             None \<Rightarrow> 0 | Some v \<Rightarrow> v)
                      | Key_temp \<Rightarrow> temp material
                      | Key_corrosion \<Rightarrow> corrosion material
                      | Key_vie \<Rightarrow> vie material
                      | Key_pose \<Rightarrow> pose material
                      | Key_acoustique \<Rightarrow> acoustique material
                      | Key_feu \<Rightarrow> feu material
                      | Key_environnement \<Rightarrow> environnement material
                      | Key_surpression \<Rightarrow> surpression material) \<and>
                (\<exists>v. normalizedMatrix r ! i ! j = Num v \<and>
                   weightedMatrix r ! i ! j =
                     Num (v * (case weights inp (selectedCriteriaKeys inp ! j) of
                                 None \<Rightarrow> 0 | Some w \<Rightarrow> w)))"
      unfolding f using im [OF ij] wm [OF ij] by (rule conjI)
  qed
  with rs(1,2) show ?thesis by blast
qed

theorem matrix_cells_witness:
  "selectedMaterialsData example_input \<noteq> []
   \<and> selectedCriteriaKeys example_input \<noteq> []
   \<and> (\<exists>rs. runTopsisCalculation example_input = Inr rs \<and> rs \<noteq> [] \<and>
           (\<forall>r \<in> set rs.
              \<forall>i < length (selectedMaterialsData example_input). \<forall>j < length (selectedCriteriaKeys example_input).
                initialMatrix r ! i ! j =
                  (let material = selectedMaterialsData example_input ! i
                   in case selectedCriteriaKeys example_input ! j of
                        Key_cout \<Rightarrow>
                          (case costs example_input (Material.name material) of
                             None \<Rightarrow> 0 | Some v \<Rightarrow> v)
                      | Key_temp \<Rightarrow> temp material
                      | Key_corrosion \<Rightarrow> corrosion material
                      | Key_vie \<Rightarrow> vie material
                      | Key_pose \<Rightarrow> pose material
                      | Key_acoustique \<Rightarrow> acoustique material
                      | Key_feu \<Rightarrow> feu material
                      | Key_environnement \<Rightarrow> environnement material
                      | Key_surpression \<Rightarrow> surpression material) \<and>
                (\<exists>v. normalizedMatrix r ! i ! j = Num v \<and>
                   weightedMatrix r ! i ! j =
                     Num (v * (case weights example_input (selectedCriteriaKeys example_input ! j) of
                                 None \<Rightarrow> 0 | Some w \<Rightarrow> w)))))
   \<and> map_sum id (map initialMatrix) (runTopsisCalculation example_input) =
       Inr [[[70, 120], [50, 35], [50, 0]], [[70, 120], [50, 35], [50, 0]],
            [[70, 120], [50, 35], [50, 0]]]
   \<and> map_sum id (map weightedMatrix) (runTopsisCalculation scenarioB_input) =
       Inr [[[Num (3 / 5)], [Num (4 / 5)]], [[Num (3 / 5)], [Num (4 / 5)]]]"
proof (intro conjI)
  show ne: "selectedMaterialsData example_input \<noteq> []"
    by (simp add: example_input_def)
  show ne': "selectedCriteriaKeys example_input \<noteq> []"
    by (simp add: example_input_def)
  show "\<exists>rs. runTopsisCalculation example_input = Inr rs \<and> rs \<noteq> [] \<and>
           (\<forall>r \<in> set rs.
              \<forall>i < length (selectedMaterialsData example_input). \<forall>j < length (selectedCriteriaKeys example_input).
                initialMatrix r ! i ! j =
                  (let material = selectedMaterialsData example_input ! i
                   in case selectedCriteriaKeys example_input ! j of
                        Key_cout \<Rightarrow>
                          (case costs example_input (Material.name material) of
                             None \<Rightarrow> 0 | Some v \<Rightarrow> v)
                      | Key_temp \<Rightarrow> temp material
                      | Key_corrosion \<Rightarrow> corrosion material
                      | Key_vie \<Rightarrow> vie material
                      | Key_pose \<Rightarrow> pose material
                      | Key_acoustique \<Rightarrow> acoustique material
                      | Key_feu \<Rightarrow> feu material
                      | Key_environnement \<Rightarrow> environnement material
                      | Key_surpression \<Rightarrow> surpression material) \<and>
                (\<exists>v. normalizedMatrix r ! i ! j = Num v \<and>
                   weightedMatrix r ! i ! j =
                     Num (v * (case weights example_input (selectedCriteriaKeys example_input ! j) of
                                 None \<Rightarrow> 0 | Some w \<Rightarrow> w))))"
    by (rule matrix_cells) (simp_all add: example_input_def)
  show "map_sum id (map initialMatrix) (runTopsisCalculation example_input) =
       Inr [[[70, 120], [50, 35], [50, 0]], [[70, 120], [50, 35], [50, 0]],
            [[70, 120], [50, 35], [50, 0]]]"
    by (simp only: run_matrices(1) [OF ne ne'])
       (simp add: example_input_def trail_im_def build_initialMatrix_def or_zero_def
          numeral_3_eq_3)
  show "map_sum id (map weightedMatrix) (runTopsisCalculation scenarioB_input) =
       Inr [[[Num (3 / 5)], [Num (4 / 5)]], [[Num (3 / 5)], [Num (4 / 5)]]]"
    by (rule scenarioB_run)
qed


text \<open>
  Claim C9. With exactly two materials and one benefit-type criterion, raw values 3 and 4
  and weight 1, the engine computes the column norm 5, the normalized column
  \<open>[0.6, 0.8]\<close>, the weighted column \<open>[0.6, 0.8]\<close>, the ideal 0.8 and the anti-ideal
  0.6, the score 1 for the second material and 0 for the first, and returns the second
  material before the first.
\<close>

theorem scenario_two_materials:
  assumes mats: "selectedMaterialsData inp = [m1, m2]"
    and keys: "selectedCriteriaKeys inp = [k]"
    and v1: "cell_value (costs inp) m1 k = 3"
    and v2: "cell_value (costs inp) m2 k = 4"
    and w: "weights inp k = Some 1"
    and crit: "catalog_entry (allCriteriaDefinition inp) k = Some criterion"
    and ben: "isBenefit criterion"
  shows "\<exists>r1 r2. runTopsisCalculation inp = Inr [r2, r1] \<and>
           originalData r1 = m1 \<and> TopsisResult.name r1 = Material.name m1 \<and>
           originalData r2 = m2 \<and> TopsisResult.name r2 = Material.name m2 \<and>
           score r1 = Num 0 \<and> score r2 = Num 1 \<and>
           initialMatrix r1 = [[3], [4]] \<and> initialMatrix r2 = [[3], [4]] \<and>
           js_sqrt (sumOfSquares (initialMatrix r1) 2 0) = Num 5 \<and>
           normalizedMatrix r1 = [[Num (3 / 5)], [Num (4 / 5)]] \<and>
           normalizedMatrix r2 = [[Num (3 / 5)], [Num (4 / 5)]] \<and>
           weightedMatrix r1 = [[Num (3 / 5)], [Num (4 / 5)]] \<and>
           weightedMatrix r2 = [[Num (3 / 5)], [Num (4 / 5)]] \<and>
           idealSolution r1 = [Num (4 / 5)] \<and> idealSolution r2 = [Num (4 / 5)] \<and>
           antiIdealSolution r1 = [Num (3 / 5)] \<and> antiIdealSolution r2 = [Num (3 / 5)]"
proof -
  have flag: "benefit_flag (catalog_entry (allCriteriaDefinition inp) k)"
    by (simp add: crit ben benefit_flag_def)
  note m = two_materials_matrices [OF mats keys v1 v2 w]
  note t = two_materials_benefit [OF mats keys v1 v2 w flag]
  let ?r1 = "trail_result inp 0" and ?r2 = "trail_result inp (Suc 0)"
  have "runTopsisCalculation inp = Inr (sorted_run inp)"
    by (rule run_sorted_run) (simp_all add: mats keys)
  then have run: "runTopsisCalculation inp = Inr [?r2, ?r1]"
    by (simp add: t(3))
  have range: "\<not> overflow_threshold \<le> 25"
    by (rule in_range) simp
  have "col_sumsq [[3], [4]] 2 0 = 25"
    by (simp add: col_sumsq_def numeral_2_eq_2)
  then have norm: "js_sqrt (sumOfSquares (initialMatrix ?r1) 2 0) = Num 5"
    by (simp add: trail_result_def m(1) sumOfSquares_eq range sqrt_25)
  have fields:
    "originalData ?r1 = m1" "TopsisResult.name ?r1 = Material.name m1"
    "originalData ?r2 = m2" "TopsisResult.name ?r2 = Material.name m2"
    "score ?r1 = Num 0" "score ?r2 = Num 1"
    "initialMatrix ?r1 = [[3], [4]]" "initialMatrix ?r2 = [[3], [4]]"
    "normalizedMatrix ?r1 = [[Num (3 / 5)], [Num (4 / 5)]]"
    "normalizedMatrix ?r2 = [[Num (3 / 5)], [Num (4 / 5)]]"
    "weightedMatrix ?r1 = [[Num (3 / 5)], [Num (4 / 5)]]"
    "weightedMatrix ?r2 = [[Num (3 / 5)], [Num (4 / 5)]]"
    "idealSolution ?r1 = [Num (4 / 5)]" "idealSolution ?r2 = [Num (4 / 5)]"
    "antiIdealSolution ?r1 = [Num (3 / 5)]" "antiIdealSolution ?r2 = [Num (3 / 5)]"
    by (simp_all add: trail_result_def mats m t)
  show ?thesis
    using run norm fields by blast
qed

theorem scenario_two_materials_witness:
  "\<exists>r1 r2. runTopsisCalculation scenarioB_input = Inr [r2, r1] \<and>
     TopsisResult.name r1 = ''Material 1'' \<and> TopsisResult.name r2 = ''Material 2'' \<and>
     score r1 = Num 0 \<and> score r2 = Num 1 \<and>
     js_sqrt (sumOfSquares (initialMatrix r1) 2 0) = Num 5 \<and>
     normalizedMatrix r1 = [[Num (3 / 5)], [Num (4 / 5)]] \<and>
     weightedMatrix r1 = [[Num (3 / 5)], [Num (4 / 5)]] \<and>
     idealSolution r1 = [Num (4 / 5)] \<and> antiIdealSolution r1 = [Num (3 / 5)]"
proof -
  have "\<exists>r1 r2. runTopsisCalculation scenarioB_input = Inr [r2, r1] \<and>
           originalData r1 = scenario_material ''Material 1'' 3 \<and>
           TopsisResult.name r1 = Material.name (scenario_material ''Material 1'' 3) \<and>
           originalData r2 = scenario_material ''Material 2'' 4 \<and>
           TopsisResult.name r2 = Material.name (scenario_material ''Material 2'' 4) \<and>
           score r1 = Num 0 \<and> score r2 = Num 1 \<and>
           initialMatrix r1 = [[3], [4]] \<and> initialMatrix r2 = [[3], [4]] \<and>
           js_sqrt (sumOfSquares (initialMatrix r1) 2 0) = Num 5 \<and>
           normalizedMatrix r1 = [[Num (3 / 5)], [Num (4 / 5)]] \<and>
           normalizedMatrix r2 = [[Num (3 / 5)], [Num (4 / 5)]] \<and>
           weightedMatrix r1 = [[Num (3 / 5)], [Num (4 / 5)]] \<and>
           weightedMatrix r2 = [[Num (3 / 5)], [Num (4 / 5)]] \<and>
           idealSolution r1 = [Num (4 / 5)] \<and> idealSolution r2 = [Num (4 / 5)] \<and>
           antiIdealSolution r1 = [Num (3 / 5)] \<and> antiIdealSolution r2 = [Num (3 / 5)]"
    by (rule scenario_two_materials
          [where criterion = "\<lparr>key = Key_vie, label = ''Duree de vie (annees)'', isBenefit = True\<rparr>"
             and k = Key_vie])
       (simp_all add: scenarioB_input_def scenario_material_def catalog_allCriteria_vie)
  then show ?thesis
    by (simp add: scenario_material_def) blast
qed

text \<open>
  Claim C10. For a non-empty input, a selected key with no entry in the criteria catalog is
  treated as a cost-type column: the ideal entry is the minimum of the column of the
  weighted matrix and the anti-ideal entry its maximum. The engine returns a result list;
  no error is raised and the input is not rejected.
\<close>

theorem unknown_key_is_cost_type:
  assumes "selectedMaterialsData inp \<noteq> []" "selectedCriteriaKeys inp \<noteq> []"
  shows "\<exists>rs. runTopsisCalculation inp = Inr rs \<and> rs \<noteq> [] \<and>
           (\<forall>r \<in> set rs. \<forall>j < length (selectedCriteriaKeys inp).
              selectedCriteriaKeys inp ! j \<notin> key ` set (allCriteriaDefinition inp) \<longrightarrow>
              (\<exists>column. map (\<lambda>row. row ! j) (weightedMatrix r) = map Num column \<and>
                 length column = length (selectedMaterialsData inp) \<and>
                 idealSolution r ! j = Num (Min (set column)) \<and>
                 antiIdealSolution r ! j = Num (Max (set column))))"
proof -
  let ?n = "length (selectedMaterialsData inp)"
  obtain rs where rs: "runTopsisCalculation inp = Inr rs" "rs \<noteq> []"
    "set rs = trail_result inp ` {0..<?n}"
    using run_set [OF assms] by blast
  have "\<forall>r \<in> set rs. \<forall>j < length (selectedCriteriaKeys inp).
              selectedCriteriaKeys inp ! j \<notin> key ` set (allCriteriaDefinition inp) \<longrightarrow>
              (\<exists>column. map (\<lambda>row. row ! j) (weightedMatrix r) = map Num column \<and>
                 length column = length (selectedMaterialsData inp) \<and>
                 idealSolution r ! j = Num (Min (set column)) \<and>
                 antiIdealSolution r ! j = Num (Max (set column)))"
  proof (intro ballI allI impI)
    fix r j
    assume "r \<in> set rs" and j: "j < length (selectedCriteriaKeys inp)"
      and miss: "selectedCriteriaKeys inp ! j \<notin> key ` set (allCriteriaDefinition inp)"
    then obtain index where "r = trail_result inp index"
      using rs(3) by auto
    then have f: "weightedMatrix r = trail_wm inp" "idealSolution r = fst (trail_sols inp)"
      "antiIdealSolution r = snd (trail_sols inp)"
      by (simp_all add: trail_result_def)
    let ?column = "column_values (value_wm inp) j"
    have "catalog_entry (allCriteriaDefinition inp) (selectedCriteriaKeys inp ! j) = None"
      using miss by (simp add: catalog_entry_None)
    then have flag: "\<not> benefit_flag (catalog_entry (allCriteriaDefinition inp)
                  (selectedCriteriaKeys inp ! j))"
      by (simp add: benefit_flag_def)
    have col: "map (\<lambda>row. row ! j) (trail_wm inp) = map Num ?column"
      by (rule trail_column [OF j])
    have len: "length ?column = ?n"
      using shape_value_wm [of inp] by (simp add: column_values_def shape_def)
    have "map (\<lambda>row. row ! j) (weightedMatrix r) = map Num ?column \<and>
          length ?column = length (selectedMaterialsData inp) \<and>
          idealSolution r ! j = Num (Min (set ?column)) \<and>
          antiIdealSolution r ! j = Num (Max (set ?column))"
      unfolding f
      using col len trail_sols_column(2) [OF assms(1) j flag] by blast
    then show "\<exists>column. map (\<lambda>row. row ! j) (weightedMatrix r) = map Num column \<and>
                 length column = length (selectedMaterialsData inp) \<and>
                 idealSolution r ! j = Num (Min (set column)) \<and>
                 antiIdealSolution r ! j = Num (Max (set column))"
      by (rule exI)
  qed
  with rs(1,2) show ?thesis by blast
qed

theorem unknown_key_is_cost_type_witness:
  "(\<exists>rs. runTopsisCalculation no_catalog_input = Inr rs \<and> rs \<noteq> [] \<and>
      (\<forall>r \<in> set rs. idealSolution r ! 0 = Num (3 / 5) \<and>
                       antiIdealSolution r ! 0 = Num (4 / 5)))
   \<and> selectedCriteriaKeys no_catalog_input ! 0 \<notin> key ` set (allCriteriaDefinition no_catalog_input)
   \<and> map_sum id (map weightedMatrix) (runTopsisCalculation no_catalog_input) =
       Inr [[[Num (3 / 5)], [Num (4 / 5)]], [[Num (3 / 5)], [Num (4 / 5)]]]
   \<and> map_sum id (map score) (runTopsisCalculation no_catalog_input) = Inr [Num 1, Num 0]
   \<and> map_sum id (map TopsisResult.name) (runTopsisCalculation no_catalog_input) =
       Inr [''Material 1'', ''Material 2'']
   \<and> map_sum id (map TopsisResult.name) (runTopsisCalculation scenarioB_input) =
       Inr [''Material 2'', ''Material 1'']"
proof (intro conjI)
  show miss: "selectedCriteriaKeys no_catalog_input ! 0 \<notin>
                key ` set (allCriteriaDefinition no_catalog_input)"
    by (simp add: no_catalog_input_def)
  show wmN: "map_sum id (map weightedMatrix) (runTopsisCalculation no_catalog_input) =
       Inr [[[Num (3 / 5)], [Num (4 / 5)]], [[Num (3 / 5)], [Num (4 / 5)]]]"
    by (rule cost_type_run [OF no_catalog_facts])
  show "map_sum id (map score) (runTopsisCalculation no_catalog_input) = Inr [Num 1, Num 0]"
    by (rule cost_type_run [OF no_catalog_facts])
  show "map_sum id (map TopsisResult.name) (runTopsisCalculation no_catalog_input) =
       Inr [''Material 1'', ''Material 2'']"
    by (rule cost_type_run [OF no_catalog_facts])
  show "map_sum id (map TopsisResult.name) (runTopsisCalculation scenarioB_input) =
       Inr [''Material 2'', ''Material 1'']"
    by (rule scenarioB_run)
  show "\<exists>rs. runTopsisCalculation no_catalog_input = Inr rs \<and> rs \<noteq> [] \<and>
      (\<forall>r \<in> set rs. idealSolution r ! 0 = Num (3 / 5) \<and>
                       antiIdealSolution r ! 0 = Num (4 / 5))"
  proof -
    have ne: "selectedMaterialsData no_catalog_input \<noteq> []"
      "selectedCriteriaKeys no_catalog_input \<noteq> []"
      by (simp_all add: no_catalog_input_def scenarioB_input_def)
    have j0: "0 < length (selectedCriteriaKeys no_catalog_input)"
      by (simp add: no_catalog_input_def scenarioB_input_def)
    from unknown_key_is_cost_type [OF ne] obtain rs where
      all: "runTopsisCalculation no_catalog_input = Inr rs \<and> rs \<noteq> [] \<and>
           (\<forall>r \<in> set rs. \<forall>j < length (selectedCriteriaKeys no_catalog_input).
              selectedCriteriaKeys no_catalog_input ! j \<notin>
                key ` set (allCriteriaDefinition no_catalog_input) \<longrightarrow>
              (\<exists>column. map (\<lambda>row. row ! j) (weightedMatrix r) = map Num column \<and>
                 length column = length (selectedMaterialsData no_catalog_input) \<and>
                 idealSolution r ! j = Num (Min (set column)) \<and>
                 antiIdealSolution r ! j = Num (Max (set column))))" ..
    note run = all [THEN conjunct1]
    note pol = all [THEN conjunct2, THEN conjunct2, rule_format]
    have "idealSolution r ! 0 = Num (3 / 5) \<and> antiIdealSolution r ! 0 = Num (4 / 5)"
      if r: "r \<in> set rs" for r
    proof -
      have "map weightedMatrix rs =
              [[[Num (3 / 5)], [Num (4 / 5)]], [[Num (3 / 5)], [Num (4 / 5)]]]"
        using wmN by (simp add: run)
      from all_of_two [OF this r]
      have wm: "weightedMatrix r = [[Num (3 / 5)], [Num (4 / 5)]]" .
      from pol [OF r j0 miss] obtain column where
        c: "map (\<lambda>row. row ! 0) (weightedMatrix r) = map Num column \<and>
            length column = length (selectedMaterialsData no_catalog_input) \<and>
            idealSolution r ! 0 = Num (Min (set column)) \<and>
            antiIdealSolution r ! 0 = Num (Max (set column))" ..
      from c have "map (\<lambda>row. row ! 0) [[Num (3 / 5)], [Num (4 / 5)]] = map Num column"
        by (simp only: wm)
      then have col: "column = [3 / 5, 4 / 5]"
        by (rule column_of_two)
      from c have "idealSolution r ! 0 = Num (Min (set column)) \<and>
                   antiIdealSolution r ! 0 = Num (Max (set column))"
        by simp
      then show ?thesis by (simp add: col)
    qed
    with all show ?thesis by blast
  qed
qed


end
